theory Spec2Isabelle
  imports Main "HOL-Library.Sublist"
begin

section \<open>Python values\<close>

text \<open>
  A Python \<open>str\<close> is a sequence of Unicode code points, so it is modelled as a list of
  naturals (\<open>len\<close> counts code points, \<open>in\<close> is the contiguous-sublist test). ASCII
  literals are written through \<open>u\<close>; Cyrillic literals are written as code points.
  An exception is represented by its description \<open>str(e)\<close>, the only part of it the
  program ever inspects.
\<close>

type_synonym ustr = "nat list"
type_synonym exn = ustr

definition u :: "string \<Rightarrow> ustr" where
  "u s = map of_char s"

text \<open>Python's \<open>xs[-k:]\<close> for \<open>k > 0\<close>: the last \<open>k\<close> elements, all of them when there are fewer.\<close>

definition last_n :: "nat \<Rightarrow> 'a list \<Rightarrow> 'a list" where
  "last_n k xs = drop (length xs - k) xs"

section \<open>Python string operations\<close>

text \<open>
  \<open>str.isspace\<close>: the code points \<open>str.strip()\<close> removes and the regular
  expression class \<open>\s\<close> matches.
\<close>

definition is_space :: "nat \<Rightarrow> bool" where
  "is_space c = ((9 \<le> c \<and> c \<le> 13) \<or> (28 \<le> c \<and> c \<le> 32) \<or> c = 133 \<or> c = 160
      \<or> c = 5760 \<or> (8192 \<le> c \<and> c \<le> 8202) \<or> c = 8232 \<or> c = 8233 \<or> c = 8239
      \<or> c = 8287 \<or> c = 12288)"

definition lstrip :: "ustr \<Rightarrow> ustr" where
  "lstrip s = dropWhile is_space s"

definition strip :: "ustr \<Rightarrow> ustr" where
  "strip s = rev (dropWhile is_space (rev (dropWhile is_space s)))"

text \<open>
  \<open>str.lower()\<close> on the letters this program meets: Latin A-Z and the Cyrillic
  capitals (U+0410..U+042F to U+0430..U+044F, U+0400..U+040F to U+0450..U+045F).
  Other code points are left as they are.
\<close>

definition lower_cp :: "nat \<Rightarrow> nat" where
  "lower_cp c = (if 65 \<le> c \<and> c \<le> 90 then c + 32
                 else if 1040 \<le> c \<and> c \<le> 1071 then c + 32
                 else if 1024 \<le> c \<and> c \<le> 1039 then c + 80
                 else c)"

definition py_lower :: "ustr \<Rightarrow> ustr" where
  "py_lower s = map lower_cp s"

text \<open>\<open>s.split(sep)\<close> for a one-character separator: never an empty list.\<close>

fun split_on :: "nat \<Rightarrow> ustr \<Rightarrow> ustr list" where
  "split_on sep [] = [[]]"
| "split_on sep (c # cs) =
     (if c = sep then [] # split_on sep cs
      else (case split_on sep cs of
              l # ls \<Rightarrow> (c # l) # ls
            | [] \<Rightarrow> [[c]]))"

section \<open>telegram\_bot.py: duplicate suppression and the sent-message ledger\<close>

text \<open>
  \<open>TelegramNotifier\<close>: \<open>sent_messages\<close> is the list held in memory,
  \<open>sent_messages_file\<close> the \<open>messages\<close> entry of \<open>sent_messages.json\<close> (\<open>None\<close>
  while the file does not exist). \<open>api_calls\<close> records the texts handed to
  \<open>bot.send_message\<close>, so that "no send was performed" can be observed.
\<close>

record notifier =
  sent_messages :: "ustr list"
  sent_messages_file :: "ustr list option"
  api_calls :: "ustr list"

text \<open>
  What the outside world answers during one call of \<open>send_message\<close>: the Telegram API
  delivers the message (returning its id) or raises, and writing the ledger file
  succeeds or raises.
\<close>

datatype send_result = Sent nat | TelegramError exn | OtherError exn

record io =
  bot_send :: send_result
  file_write_ok :: bool

text \<open>
  \<open>_save_sent_messages\<close>: the list is cut to its last 100 entries first; the write runs
  inside \<open>try\<close>, a failure is logged and leaves the file as it was.
\<close>

definition save_sent_messages :: "bool \<Rightarrow> notifier \<Rightarrow> notifier" where
  "save_sent_messages write_ok n =
     (let n1 = (if length (sent_messages n) > 100
                then n\<lparr>sent_messages := last_n 100 (sent_messages n)\<rparr> else n)
      in if write_ok then n1\<lparr>sent_messages_file := Some (sent_messages n1)\<rparr> else n1)"

text \<open>
  \<open>_create_message_hash\<close>: \<open>hashlib.md5(message.encode('utf-8')).hexdigest()[:16]\<close>.
  The digest function \<open>md5\<close> (of the UTF-8 encoding, as hexadecimal text) is the
  library's and is a parameter. \<open>encode\<close> raises on a lone surrogate code point.
\<close>

definition encodable :: "ustr \<Rightarrow> bool" where
  "encodable s = (\<forall>c \<in> set s. \<not> (55296 \<le> c \<and> c \<le> 57343))"

definition create_message_hash :: "(ustr \<Rightarrow> ustr) \<Rightarrow> ustr \<Rightarrow> exn + ustr" where
  "create_message_hash md5 message =
     (if encodable message then Inr (take 16 (md5 message))
      else Inl (u ''UnicodeEncodeError''))"

text \<open>
  \<open>send_message\<close>: every exception ends in \<open>return False\<close>; a hash already in the list
  returns \<open>True\<close> before the API is called.
\<close>

definition send_message :: "(ustr \<Rightarrow> ustr) \<Rightarrow> io \<Rightarrow> ustr \<Rightarrow> notifier \<Rightarrow> bool \<times> notifier" where
  "send_message md5 env message n =
     (case create_message_hash md5 message of
        Inl e \<Rightarrow> (False, n)
      | Inr message_hash \<Rightarrow>
          if message_hash \<in> set (sent_messages n) then (True, n)
          else
            (let n1 = n\<lparr>api_calls := api_calls n @ [message]\<rparr> in
             case bot_send env of
               Sent message_id \<Rightarrow>
                 (True, save_sent_messages (file_write_ok env)
                          (n1\<lparr>sent_messages := sent_messages n1 @ [message_hash]\<rparr>))
             | TelegramError e \<Rightarrow> (False, n1)
             | OtherError e \<Rightarrow> (False, n1)))"

text \<open>A run of the notifier: the messages are sent one after the other.\<close>

fun send_all :: "(ustr \<Rightarrow> ustr) \<Rightarrow> (ustr \<times> io) list \<Rightarrow> notifier \<Rightarrow> notifier" where
  "send_all md5 [] n = n"
| "send_all md5 ((message, env) # rest) n = send_all md5 rest (snd (send_message md5 env message n))"

definition delivered_ok :: "io \<Rightarrow> bool" where
  "delivered_ok env = ((\<exists>i. bot_send env = Sent i) \<and> file_write_ok env)"

definition hash_of :: "(ustr \<Rightarrow> ustr) \<Rightarrow> ustr \<Rightarrow> ustr" where
  "hash_of md5 message = take 16 (md5 message)"

section \<open>email\_client.py: the world the client runs in\<close>

text \<open>
  A naive \<open>datetime\<close> is a count of microseconds from a fixed origin: comparison and
  \<open>timedelta\<close> arithmetic are those of the integers, and the calendar date, all that
  \<open>strftime("%d-%b-%Y")\<close> keeps of it, is the quotient by one day.
\<close>

type_synonym datetime = int

definition hours :: "int \<Rightarrow> int" where
  "hours h = h * 3600000000"

definition seconds :: "int \<Rightarrow> int" where
  "seconds s = s * 1000000"

definition day_of :: "datetime \<Rightarrow> int" where
  "day_of t = t div 86400000000"

type_synonym bytes = "char list"

datatype status = OK | NO | BAD

text \<open>
  A parsed MIME message, as \<open>email.message_from_bytes\<close> delivers it: for each part that
  \<open>walk()\<close> visits its content type, \<open>str(part.get("Content-Disposition"))\<close> (the text
  \<open>None\<close> when the header is missing) and \<open>get_payload(decode=True)\<close>. The three header
  texts are the values after \<open>_decode_mime_words\<close>.
\<close>

record mime_part =
  content_type :: ustr
  content_disposition :: ustr
  part_payload :: "bytes option"

record email_message =
  subject_header :: ustr
  from_header :: ustr
  date_field :: ustr
  is_multipart :: bool
  walk :: "mime_part list"
  payload :: "bytes option"

text \<open>The dictionary \<open>get_email_content\<close> builds.\<close>

record email_data =
  msg_id :: nat
  subject :: ustr
  from_addr :: ustr
  date :: ustr
  body :: ustr

text \<open>The three decoders of the codec library; the strict ones fail with \<open>None\<close>.\<close>

record codecs =
  decode_utf8 :: "bytes \<Rightarrow> ustr option"
  decode_cp1251 :: "bytes \<Rightarrow> ustr option"
  decode_utf8_ignore :: "bytes \<Rightarrow> ustr"

text \<open>
  Everything outside the program. \<open>link t\<close> says whether the \<open>t\<close>-th call into
  \<open>imaplib\<close> raises, and with which description; a call that does not raise gets the
  server's answer: the status word of \<open>login\<close>, \<open>select\<close> and \<open>noop\<close>, the ids found
  for a sender and a \<open>SINCE\<close> date, the text of a message's \<open>Date\<close> header section
  (\<open>None\<close> when the answer carries no data) and the message itself.
  \<open>parsedate\<close> is \<open>email.utils.parsedate_to_datetime\<close>: it raises or gives the wall-clock
  fields together with the UTC offset, if the header has one.
\<close>

record imap_env =
  link :: "nat \<Rightarrow> exn option"
  login_status :: status
  select_status :: status
  noop_status :: status
  search_result :: "ustr \<Rightarrow> int \<Rightarrow> status \<times> nat list"
  date_header :: "nat \<Rightarrow> status \<times> ustr option"
  rfc822 :: "nat \<Rightarrow> status \<times> email_message option"
  parsedate :: "ustr \<Rightarrow> exn + datetime \<times> int option"
  codec :: codecs
  state_file_writable :: bool

text \<open>
  What the program changes: \<open>connection\<close> is "\<open>self.connection\<close> is not \<open>None\<close>",
  \<open>state_file\<close> the \<open>last_check_time\<close> of the state file (\<open>None\<close> when
  \<open>load_last_check_time\<close> finds no usable file), \<open>clock\<close> the value of
  \<open>datetime.now()\<close>, \<open>calls\<close> the number of calls made into \<open>imaplib\<close>, and \<open>events\<close>
  the loop iterations started and the \<open>time.sleep\<close> calls, in order. Only
  \<open>time.sleep\<close> moves the clock: the other steps take no time here.
\<close>

datatype event = Attempt nat | Sleep nat

record world =
  connection :: bool
  state_file :: "datetime option"
  clock :: datetime
  calls :: nat
  events :: "event list"

definition imap_call :: "imap_env \<Rightarrow> world \<Rightarrow> exn option \<times> world" where
  "imap_call env w = (link env (calls w), w\<lparr>calls := calls w + 1\<rparr>)"

definition sleep :: "nat \<Rightarrow> world \<Rightarrow> world" where
  "sleep n w = w\<lparr>clock := clock w + seconds (int n), events := events w @ [Sleep n]\<rparr>"

section \<open>email\_client.py: connection handling\<close>

text \<open>
  \<open>connect\<close>: \<open>IMAP4_SSL(...)\<close>, then \<open>login\<close>; any exception gives \<open>False\<close>. The attribute
  \<open>self.connection\<close> is assigned as soon as the first call returns.
\<close>

definition connect :: "imap_env \<Rightarrow> world \<Rightarrow> bool \<times> world" where
  "connect env w =
     (case imap_call env w of
        (Some e, w1) \<Rightarrow> (False, w1)
      | (None, w1) \<Rightarrow>
          (case imap_call env (w1\<lparr>connection := True\<rparr>) of
             (Some e, w2) \<Rightarrow> (False, w2)
           | (None, w2) \<Rightarrow> (login_status env = OK, w2)))"

text \<open>\<open>select_mailbox\<close>; without a connection the attribute access raises inside \<open>try\<close>.\<close>

definition select_mailbox :: "imap_env \<Rightarrow> world \<Rightarrow> bool \<times> world" where
  "select_mailbox env w =
     (if \<not> connection w then (False, w)
      else (case imap_call env w of
              (Some e, w1) \<Rightarrow> (False, w1)
            | (None, w1) \<Rightarrow> (select_status env = OK, w1)))"

text \<open>\<open>_disconnect_internal\<close>: \<open>close\<close>, then \<open>logout\<close>, errors ignored; \<open>finally\<close> clears the attribute.\<close>

definition disconnect_internal :: "imap_env \<Rightarrow> world \<Rightarrow> world" where
  "disconnect_internal env w =
     (if connection w then
        (case imap_call env w of
           (Some e, w1) \<Rightarrow> w1\<lparr>connection := False\<rparr>
         | (None, w1) \<Rightarrow> (snd (imap_call env w1))\<lparr>connection := False\<rparr>)
      else w)"

text \<open>\<open>self.connect() and self.select_mailbox()\<close>.\<close>

definition connect_and_select :: "imap_env \<Rightarrow> world \<Rightarrow> bool \<times> world" where
  "connect_and_select env w =
     (case connect env w of
        (True, w1) \<Rightarrow> select_mailbox env w1
      | (False, w1) \<Rightarrow> (False, w1))"

text \<open>\<open>_ensure_connection\<close>: a \<open>noop\<close> on an existing connection, a reconnect when it fails.\<close>

definition ensure_connection :: "imap_env \<Rightarrow> world \<Rightarrow> bool \<times> world" where
  "ensure_connection env w =
     (if \<not> connection w then connect_and_select env w
      else (case imap_call env w of
              (None, w1) \<Rightarrow>
                if noop_status env = OK then (True, w1)
                else connect_and_select env (disconnect_internal env w1)
            | (Some e, w1) \<Rightarrow> connect_and_select env (disconnect_internal env w1)))"

section \<open>email\_client.py: the checkpoint\<close>

definition load_last_check_time :: "world \<Rightarrow> datetime option" where
  "load_last_check_time w = state_file w"

text \<open>
  \<open>save_last_check_time()\<close> with no argument stores \<open>datetime.now()\<close>; a failing write
  is logged and the file stays as it was.
\<close>

definition save_last_check_time :: "imap_env \<Rightarrow> world \<Rightarrow> world" where
  "save_last_check_time env w =
     (if state_file_writable env then w\<lparr>state_file := Some (clock w)\<rparr> else w)"

section \<open>email\_client.py: searching\<close>

text \<open>
  The loop of \<open>_get_email_date\<close> over the header's lines: the first line that begins with
  \<open>date:\<close> (in any case) decides; \<open>replace(tzinfo=None)\<close> keeps the wall-clock fields.
\<close>

fun date_of_lines :: "imap_env \<Rightarrow> ustr list \<Rightarrow> datetime option" where
  "date_of_lines env [] = None"
| "date_of_lines env (line # rest) =
     (if prefix (u ''date:'') (py_lower line) then
        (case parsedate env (strip (drop 5 line)) of
           Inl e \<Rightarrow> None
         | Inr (email_date, tzinfo) \<Rightarrow> Some email_date)
      else date_of_lines env rest)"

text \<open>
  What \<open>_get_email_date\<close> makes of the server's answer: no date unless the status is
  \<open>OK\<close> and the answer carries the header.
\<close>

definition header_date :: "imap_env \<Rightarrow> nat \<Rightarrow> datetime option" where
  "header_date env email_id =
     (case date_header env email_id of
        (result, None) \<Rightarrow> None
      | (result, Some header) \<Rightarrow>
          if result \<noteq> OK then None
          else date_of_lines env (split_on 10 header))"

definition get_email_date :: "imap_env \<Rightarrow> nat \<Rightarrow> world \<Rightarrow> datetime option \<times> world" where
  "get_email_date env email_id w =
     (case imap_call env w of
        (Some e, w1) \<Rightarrow> (None, w1)
      | (None, w1) \<Rightarrow> (header_date env email_id, w1))"

text \<open>The filtering loop of \<open>search_new_emails_from_sender\<close>.\<close>

fun keep_new :: "imap_env \<Rightarrow> datetime \<Rightarrow> nat list \<Rightarrow> world \<Rightarrow> nat list \<times> world" where
  "keep_new env last_check [] w = ([], w)"
| "keep_new env last_check (email_id # rest) w =
     (case get_email_date env email_id w of
        (email_date, w1) \<Rightarrow>
          (case keep_new env last_check rest w1 of
             (new_ids, w2) \<Rightarrow>
               (case email_date of
                  Some d \<Rightarrow> if d > last_check then (email_id # new_ids, w2) else (new_ids, w2)
                | None \<Rightarrow> (new_ids, w2))))"

text \<open>
  \<open>search_new_emails_from_sender\<close>. The search criterion is the sender and the date of
  \<open>since_date\<close>; every exception, a status other than \<open>OK\<close> and an empty answer give
  the empty list.
\<close>

definition since_date :: "world \<Rightarrow> int" where
  "since_date w =
     (case load_last_check_time w of
        None \<Rightarrow> day_of (clock w - hours 24)
      | Some last_check \<Rightarrow> day_of last_check)"

definition search_new_emails_from_sender :: "imap_env \<Rightarrow> ustr \<Rightarrow> world \<Rightarrow> nat list \<times> world" where
  "search_new_emails_from_sender env sender_email w =
     (if \<not> connection w then ([], w)
      else (case imap_call env w of
              (Some e, w1) \<Rightarrow> ([], w1)
            | (None, w1) \<Rightarrow>
                (case search_result env sender_email (since_date w) of
                   (result, all_ids) \<Rightarrow>
                     if result \<noteq> OK then ([], w1)
                     else if all_ids = [] then ([], w1)
                     else (case load_last_check_time w of
                             Some last_check \<Rightarrow> keep_new env last_check all_ids w1
                           | None \<Rightarrow> (all_ids, w1)))))"

section \<open>email\_client.py: message bodies\<close>

text \<open>
  The variable \<open>body\<close> of \<open>_extract_body\<close> holds the empty \<open>str\<close> it starts with, the
  \<open>bytes\<close> of a payload, or \<open>None\<close> (a part without payload). \<open>not body\<close> is true for
  the empty text, the empty bytes and \<open>None\<close>.
\<close>

datatype body_val = BStr ustr | BBytes bytes | BNone

definition payload_val :: "bytes option \<Rightarrow> body_val" where
  "payload_val p = (case p of None \<Rightarrow> BNone | Some b \<Rightarrow> BBytes b)"

definition body_empty :: "body_val \<Rightarrow> bool" where
  "body_empty b = (case b of BStr s \<Rightarrow> s = [] | BBytes bs \<Rightarrow> bs = [] | BNone \<Rightarrow> True)"

definition no_attachment :: "mime_part \<Rightarrow> bool" where
  "no_attachment p = (\<not> sublist (u ''attachment'') (content_disposition p))"

definition is_plain :: "mime_part \<Rightarrow> bool" where
  "is_plain p = (content_type p = u ''text/plain'' \<and> no_attachment p)"

definition is_html :: "mime_part \<Rightarrow> bool" where
  "is_html p = (content_type p = u ''text/html'' \<and> no_attachment p)"

text \<open>The loop over \<open>email_message.walk()\<close>: a plain-text part ends it (\<open>break\<close>).\<close>

fun walk_parts :: "mime_part list \<Rightarrow> body_val \<Rightarrow> body_val" where
  "walk_parts [] current = current"
| "walk_parts (p # rest) current =
     (if is_plain p then payload_val (part_payload p)
      else if is_html p \<and> body_empty current then walk_parts rest (payload_val (part_payload p))
      else walk_parts rest current)"

definition select_body :: "email_message \<Rightarrow> body_val" where
  "select_body email_message =
     (if is_multipart email_message then walk_parts (walk email_message) (BStr [])
      else payload_val (payload email_message))"

text \<open>The nested \<open>try\<close> blocks that turn \<open>bytes\<close> into text.\<close>

definition decode_body :: "codecs \<Rightarrow> bytes \<Rightarrow> ustr" where
  "decode_body c b =
     (case decode_utf8 c b of
        Some s \<Rightarrow> s
      | None \<Rightarrow>
          (case decode_cp1251 c b of
             Some s \<Rightarrow> s
           | None \<Rightarrow> decode_utf8_ignore c b))"

text \<open>\<open>_extract_body\<close>; \<open>None.strip()\<close> raises and the handler returns the empty text.\<close>

definition extract_body :: "codecs \<Rightarrow> email_message \<Rightarrow> ustr" where
  "extract_body c email_message =
     (case select_body email_message of
        BBytes b \<Rightarrow> strip (decode_body c b)
      | BStr s \<Rightarrow> strip s
      | BNone \<Rightarrow> [])"

text \<open>\<open>get_email_content\<close>: \<open>None\<close> for a failed fetch and for every exception.\<close>

definition get_email_content :: "imap_env \<Rightarrow> nat \<Rightarrow> world \<Rightarrow> email_data option \<times> world" where
  "get_email_content env email_id w =
     (case imap_call env w of
        (Some e, w1) \<Rightarrow> (None, w1)
      | (None, w1) \<Rightarrow>
          (case rfc822 env email_id of
             (result, m) \<Rightarrow>
               if result \<noteq> OK then (None, w1)
               else (case m of
                       None \<Rightarrow> (None, w1)
                     | Some email_message \<Rightarrow>
                         (Some \<lparr>msg_id = email_id,
                                subject = subject_header email_message,
                                from_addr = from_header email_message,
                                date = date_field email_message,
                                body = extract_body (codec env) email_message\<rparr>, w1))))"

section \<open>email\_client.py: get\_new\_emails\_from\_sender\<close>

text \<open>The loop that fetches the contents of the new messages.\<close>

fun get_contents :: "imap_env \<Rightarrow> nat list \<Rightarrow> world \<Rightarrow> email_data list \<times> world" where
  "get_contents env [] w = ([], w)"
| "get_contents env (email_id # rest) w =
     (case get_email_content env email_id w of
        (email_data, w1) \<Rightarrow>
          (case get_contents env rest w1 of
             (emails, w2) \<Rightarrow>
               (case email_data of
                  Some d \<Rightarrow> (d # emails, w2)
                | None \<Rightarrow> (emails, w2))))"

text \<open>
  The body of the \<open>try\<close> block of one attempt. Its result is \<open>Inl e\<close> when an exception
  with description \<open>e\<close> reaches the handler of \<open>get_new_emails_from_sender\<close>,
  \<open>Inr None\<close> for \<open>continue\<close> and \<open>Inr (Some emails)\<close> for \<open>return emails\<close>. The
  methods called here catch every exception themselves.
\<close>

definition fetch_attempt ::
  "imap_env \<Rightarrow> ustr \<Rightarrow> bool \<Rightarrow> world \<Rightarrow> (exn + email_data list option) \<times> world" where
  "fetch_attempt env sender_email update_state w =
     (case ensure_connection env w of
        (False, w1) \<Rightarrow> (Inr None, w1)
      | (True, w1) \<Rightarrow>
          (case search_new_emails_from_sender env sender_email w1 of
             (new_email_ids, w2) \<Rightarrow>
               if new_email_ids = [] then
                 (Inr (Some []), if update_state then save_last_check_time env w2 else w2)
               else
                 (case get_contents env new_email_ids w2 of
                    (emails, w3) \<Rightarrow>
                      (Inr (Some emails),
                       if update_state then save_last_check_time env w3 else w3))))"

text \<open>The test of the handler: is this the description of a connection error?\<close>

definition is_connection_error :: "exn \<Rightarrow> bool" where
  "is_connection_error e =
     list_ex (\<lambda>err. sublist err (py_lower e))
       [u ''broken pipe'', u ''connection'', u ''socket'', u ''timeout'']"

text \<open>
  The two ways the function ends: a \<open>return\<close> inside \<open>try\<close>, or the final error message
  followed by \<open>return []\<close>.
\<close>

datatype fetch_outcome = Fetched "email_data list" | Failed

text \<open>
  The \<open>for\<close> loop with its handler, over the attempts still to make, for any body of the
  \<open>try\<close> block. After a connection error on the last attempt nothing is slept and the loop
  ends; any other exception leaves the loop at once (\<open>break\<close>).
\<close>

fun attempt_loop ::
  "imap_env \<Rightarrow> (world \<Rightarrow> (exn + email_data list option) \<times> world) \<Rightarrow> int \<Rightarrow> nat list
     \<Rightarrow> world \<Rightarrow> fetch_outcome \<times> world" where
  "attempt_loop env try_body retry_count [] w = (Failed, w)"
| "attempt_loop env try_body retry_count (attempt # rest) w =
     (case try_body (w\<lparr>events := events w @ [Attempt attempt]\<rparr>) of
        (Inr (Some emails), w1) \<Rightarrow> (Fetched emails, w1)
      | (Inr None, w1) \<Rightarrow> attempt_loop env try_body retry_count rest w1
      | (Inl e, w1) \<Rightarrow>
          if is_connection_error e then
            (let w2 = disconnect_internal env w1 in
             if int attempt < retry_count - 1
             then attempt_loop env try_body retry_count rest (sleep 5 w2)
             else attempt_loop env try_body retry_count rest w2)
          else (Failed, w1))"

text \<open>\<open>for attempt in range(retry_count)\<close>, for any body of the \<open>try\<close> block.\<close>

definition retry_loop ::
  "imap_env \<Rightarrow> (world \<Rightarrow> (exn + email_data list option) \<times> world) \<Rightarrow> int
     \<Rightarrow> world \<Rightarrow> fetch_outcome \<times> world" where
  "retry_loop env try_body retry_count w =
     attempt_loop env try_body retry_count [0..<nat retry_count] w"

definition fetch_new_emails ::
  "imap_env \<Rightarrow> ustr \<Rightarrow> bool \<Rightarrow> int \<Rightarrow> world \<Rightarrow> fetch_outcome \<times> world" where
  "fetch_new_emails env sender_email update_state retry_count w =
     retry_loop env (fetch_attempt env sender_email update_state) retry_count w"

text \<open>\<open>get_new_emails_from_sender\<close>: both ways of ending return a list.\<close>

definition get_new_emails_from_sender ::
  "imap_env \<Rightarrow> ustr \<Rightarrow> bool \<Rightarrow> int \<Rightarrow> world \<Rightarrow> email_data list \<times> world" where
  "get_new_emails_from_sender env sender_email update_state retry_count w =
     (case fetch_new_emails env sender_email update_state retry_count w of
        (Fetched emails, w1) \<Rightarrow> (emails, w1)
      | (Failed, w1) \<Rightarrow> ([], w1))"

section \<open>Notions used to state the properties of the mail client\<close>

text \<open>
  \<open>newer env T i\<close>: the \<open>Date\<close> header of message \<open>i\<close> parses to a time strictly after
  \<open>T\<close>. \<open>kept env T (t, i)\<close>: moreover the fetch of that header, made as call number
  \<open>t\<close>, does not raise.
\<close>

definition newer :: "imap_env \<Rightarrow> datetime \<Rightarrow> nat \<Rightarrow> bool" where
  "newer env T i = (case header_date env i of Some d \<Rightarrow> T < d | None \<Rightarrow> False)"

definition kept :: "imap_env \<Rightarrow> datetime \<Rightarrow> nat \<times> nat \<Rightarrow> bool" where
  "kept env T = (\<lambda>(t, i). link env t = None \<and> newer env T i)"

text \<open>Two worlds agree on the state file, the clock and the events.\<close>

definition same_store :: "world \<Rightarrow> world \<Rightarrow> bool" where
  "same_store w w' =
     (state_file w' = state_file w \<and> clock w' = clock w \<and> events w' = events w)"

section \<open>parser.py: regular expressions\<close>

text \<open>
  The patterns of the parser use a small part of the language of \<open>re\<close>: single
  characters and character classes, each possibly repeated (greedily or lazily), the
  end-of-text anchor, one capturing group and, after the group, a choice between a few
  alternatives. That part is modelled here with the backtracking order of \<open>re\<close>.

  Character classes. \<open>NoCase c\<close> is the literal \<open>c\<close> under \<open>re.IGNORECASE\<close>, compared
  through \<open>lower_cp\<close>. \<open>\d\<close> and \<open>\w\<close> are modelled on the ASCII digits and on the ASCII
  and Cyrillic letters, digits and the underscore. \<open>Dot\<close> is the dot, \<open>DotAll\<close> the
  dot under \<open>re.DOTALL\<close>.
\<close>

definition is_digit :: "nat \<Rightarrow> bool" where
  "is_digit c = (48 \<le> c \<and> c \<le> 57)"

definition is_word :: "nat \<Rightarrow> bool" where
  "is_word c = ((48 \<le> c \<and> c \<le> 57) \<or> (65 \<le> c \<and> c \<le> 90) \<or> c = 95 \<or> (97 \<le> c \<and> c \<le> 122)
      \<or> (1024 \<le> c \<and> c \<le> 1153) \<or> (1162 \<le> c \<and> c \<le> 1327))"

datatype cls =
    Exact nat
  | NoCase nat
  | Between nat nat
  | Space
  | Digit
  | Wordchar
  | Dot
  | DotAll
  | Except cls
  | Either cls cls

fun in_cls :: "cls \<Rightarrow> nat \<Rightarrow> bool" where
  "in_cls (Exact c) x = (x = c)"
| "in_cls (NoCase c) x = (lower_cp x = lower_cp c)"
| "in_cls (Between a b) x = (a \<le> x \<and> x \<le> b)"
| "in_cls Space x = is_space x"
| "in_cls Digit x = is_digit x"
| "in_cls Wordchar x = is_word x"
| "in_cls Dot x = (x \<noteq> 10)"
| "in_cls DotAll x = True"
| "in_cls (Except c) x = (\<not> in_cls c x)"
| "in_cls (Either a b) x = (in_cls a x \<or> in_cls b x)"

text \<open>
  \<open>Rep c lo hi greedy\<close> is the class \<open>c\<close> repeated \<open>lo\<close> to \<open>hi\<close> times (\<open>None\<close>: no
  upper bound), the longest run first when \<open>greedy\<close>, the shortest first otherwise;
  \<open>Eol\<close> is \<open>$\<close>, the end of the text or the place before a final line feed.
\<close>

datatype item = One cls | Rep cls nat "nat option" bool | Eol

text \<open>The numbers of repetitions to try, in the order \<open>re\<close> tries them.\<close>

definition counts :: "cls \<Rightarrow> nat \<Rightarrow> nat option \<Rightarrow> bool \<Rightarrow> ustr \<Rightarrow> nat list" where
  "counts c lo hi greedy s =
     (let avail = length (takeWhile (in_cls c) s);
          top = (case hi of None \<Rightarrow> avail | Some h \<Rightarrow> min h avail)
      in if greedy then rev [lo..<Suc top] else [lo..<Suc top])"

fun first_some :: "('a \<Rightarrow> 'b option) \<Rightarrow> 'a list \<Rightarrow> 'b option" where
  "first_some f [] = None"
| "first_some f (x # xs) = (case f x of Some r \<Rightarrow> Some r | None \<Rightarrow> first_some f xs)"

text \<open>
  \<open>match_items items s k\<close> matches the items at the start of \<open>s\<close> and hands the rest of
  the text to \<open>k\<close>; when \<open>k\<close> fails the next possibility is tried.
\<close>

primrec match_items :: "item list \<Rightarrow> ustr \<Rightarrow> (ustr \<Rightarrow> 'a option) \<Rightarrow> 'a option" where
  "match_items [] s k = k s"
| "match_items (i # rest) s k =
     (case i of
        One c \<Rightarrow>
          (case s of
             [] \<Rightarrow> None
           | x # xs \<Rightarrow> if in_cls c x then match_items rest xs k else None)
      | Rep c lo hi greedy \<Rightarrow>
          first_some (\<lambda>n. match_items rest (drop n s) k) (counts c lo hi greedy s)
      | Eol \<Rightarrow> if s = [] \<or> s = [10] then match_items rest s k else None)"

text \<open>
  A pattern with its capturing group: what stands before the group, the group, and the
  alternatives after it (\<open>[[]]\<close> when nothing follows).
\<close>

record pattern =
  before :: "item list"
  group1 :: "item list"
  after :: "item list list"

text \<open>A match at the start of \<open>s\<close>: the text of group 1 and the text after the match.\<close>

definition match_at :: "pattern \<Rightarrow> ustr \<Rightarrow> (ustr \<times> ustr) option" where
  "match_at p s =
     match_items (before p) s (\<lambda>r1.
       match_items (group1 p) r1 (\<lambda>r2.
         first_some (\<lambda>alt.
           match_items alt r2 (\<lambda>r3. Some (take (length r1 - length r2) r1, r3)))
           (after p)))"

text \<open>\<open>re.search(p, s).group(1)\<close>: the leftmost match, \<open>None\<close> when there is none.\<close>

fun re_search :: "pattern \<Rightarrow> ustr \<Rightarrow> ustr option" where
  "re_search p [] = map_option fst (match_at p [])"
| "re_search p (x # xs) =
     (case match_at p (x # xs) of
        Some (g, r) \<Rightarrow> Some g
      | None \<Rightarrow> re_search p xs)"

text \<open>
  \<open>re.sub(items, repl, s)\<close> for a pattern without group that cannot match the empty
  text: the matches are replaced from left to right.
\<close>

function re_sub :: "item list \<Rightarrow> ustr \<Rightarrow> ustr \<Rightarrow> ustr" where
  "re_sub items repl [] = []"
| "re_sub items repl (x # xs) =
     (case match_items items (x # xs) Some of
        Some r \<Rightarrow>
          if length r < length (x # xs) then repl @ re_sub items repl r
          else x # re_sub items repl xs
      | None \<Rightarrow> x # re_sub items repl xs)"
  by pat_completeness auto
termination
  by (relation "measure (\<lambda>(items, repl, s). length s)") auto

definition nocase :: "ustr \<Rightarrow> item list" where
  "nocase lit = map (\<lambda>c. One (NoCase c)) lit"

definition exact :: "ustr \<Rightarrow> item list" where
  "exact lit = map (\<lambda>c. One (Exact c)) lit"

definition many1 :: "cls \<Rightarrow> item" where
  "many1 c = Rep c 1 None True"

definition many0 :: "cls \<Rightarrow> item" where
  "many0 c = Rep c 0 None True"

definition lazy1 :: "cls \<Rightarrow> item" where
  "lazy1 c = Rep c 1 None False"

definition lazy0 :: "cls \<Rightarrow> item" where
  "lazy0 c = Rep c 0 None False"

definition opt :: "cls \<Rightarrow> item" where
  "opt c = Rep c 0 (Some 1) True"

section \<open>parser.py: the words of the patterns\<close>

text \<open>
  The Russian words of the patterns, as code points; each name transliterates its word.
\<close>

definition ru_operator :: ustr where
  "ru_operator = [1086, 1087, 1077, 1088, 1072, 1090, 1086, 1088]"

definition ru_soobshchil :: ustr where
  "ru_soobshchil = [1089, 1086, 1086, 1073, 1097, 1080, 1083]"

definition ru_operatora :: ustr where
  "ru_operatora = [1086, 1087, 1077, 1088, 1072, 1090, 1086, 1088, 1072]"

definition ru_storone_operatora :: ustr where
  "ru_storone_operatora = [1089, 1090, 1086, 1088, 1086, 1085, 1077, 32, 1086, 1087, 1077, 1088, 1072, 1090, 1086, 1088, 1072]"

definition ru_platforme :: ustr where
  "ru_platforme = [1087, 1083, 1072, 1090, 1092, 1086, 1088, 1084, 1077]"

definition ru_platformy :: ustr where
  "ru_platformy = [1087, 1083, 1072, 1090, 1092, 1086, 1088, 1084, 1099]"

definition ru_raboty_na_storone_operatora :: ustr where
  "ru_raboty_na_storone_operatora = [1088, 1072, 1073, 1086, 1090, 1099, 32, 1085, 1072, 32, 1089, 1090, 1086, 1088, 1086, 1085, 1077, 32, 1086, 1087, 1077, 1088, 1072, 1090, 1086, 1088, 1072]"

definition ru_raboty_na_platforme :: ustr where
  "ru_raboty_na_platforme = [1088, 1072, 1073, 1086, 1090, 1099, 32, 1085, 1072, 32, 1087, 1083, 1072, 1090, 1092, 1086, 1088, 1084, 1077]"

definition ru_beeline :: ustr where
  "ru_beeline = [1041, 1080, 1083, 1072, 1081, 1085]"

definition ru_mts :: ustr where
  "ru_mts = [1052, 1058, 1057]"

definition ru_megafon :: ustr where
  "ru_megafon = [1052, 1077, 1075, 1072, 1092, 1086, 1085]"

definition ru_tele2 :: ustr where
  "ru_tele2 = [1058, 1077, 1083, 1077, 50]"

definition ru_motiv :: ustr where
  "ru_motiv = [1052, 1086, 1090, 1080, 1074]"

definition ru_nachalo_rabot :: ustr where
  "ru_nachalo_rabot = [1085, 1072, 1095, 1072, 1083, 1086, 32, 1088, 1072, 1073, 1086, 1090]"

definition ru_nachalo :: ustr where
  "ru_nachalo = [1085, 1072, 1095, 1072, 1083, 1086]"

definition ru_s :: ustr where
  "ru_s = [1089]"

definition ru_okonchanie_rabot :: ustr where
  "ru_okonchanie_rabot = [1086, 1082, 1086, 1085, 1095, 1072, 1085, 1080, 1077, 32, 1088, 1072, 1073, 1086, 1090]"

definition ru_okonchanie :: ustr where
  "ru_okonchanie = [1086, 1082, 1086, 1085, 1095, 1072, 1085, 1080, 1077]"

definition ru_po :: ustr where
  "ru_po = [1087, 1086]"

definition ru_raboty :: ustr where
  "ru_raboty = [1088, 1072, 1073, 1086, 1090, 1099]"

definition ru_rabot :: ustr where
  "ru_rabot = [1088, 1072, 1073, 1086, 1090]"

definition ru_obsluzhivanie :: ustr where
  "ru_obsluzhivanie = [1086, 1073, 1089, 1083, 1091, 1078, 1080, 1074, 1072, 1085, 1080, 1077]"

definition ru_tekhnichesk :: ustr where
  "ru_tekhnichesk = [1090, 1077, 1093, 1085, 1080, 1095, 1077, 1089, 1082]"

definition ru_vneplanovye :: ustr where
  "ru_vneplanovye = [1074, 1085, 1077, 1087, 1083, 1072, 1085, 1086, 1074, 1099, 1077]"

definition ru_planovye :: ustr where
  "ru_planovye = [1087, 1083, 1072, 1085, 1086, 1074, 1099, 1077]"

definition ru_avarijnye :: ustr where
  "ru_avarijnye = [1072, 1074, 1072, 1088, 1080, 1081, 1085, 1099, 1077]"

definition ru_profilakticheskie :: ustr where
  "ru_profilakticheskie = [1087, 1088, 1086, 1092, 1080, 1083, 1072, 1082, 1090, 1080, 1095, 1077, 1089, 1082, 1080, 1077]"

definition ru_tekhnicheskie :: ustr where
  "ru_tekhnicheskie = [1090, 1077, 1093, 1085, 1080, 1095, 1077, 1089, 1082, 1080, 1077]"

definition ru_tekhnicheskikh_rabot :: ustr where
  "ru_tekhnicheskikh_rabot = [1090, 1077, 1093, 1085, 1080, 1095, 1077, 1089, 1082, 1080, 1093, 32, 1088, 1072, 1073, 1086, 1090]"

definition ru_Vneplanovye_raboty :: ustr where
  "ru_Vneplanovye_raboty = [1042, 1085, 1077, 1087, 1083, 1072, 1085, 1086, 1074, 1099, 1077, 32, 1088, 1072, 1073, 1086, 1090, 1099]"

definition ru_Planovye_raboty :: ustr where
  "ru_Planovye_raboty = [1055, 1083, 1072, 1085, 1086, 1074, 1099, 1077, 32, 1088, 1072, 1073, 1086, 1090, 1099]"

definition ru_Avarijnye_raboty :: ustr where
  "ru_Avarijnye_raboty = [1040, 1074, 1072, 1088, 1080, 1081, 1085, 1099, 1077, 32, 1088, 1072, 1073, 1086, 1090, 1099]"

definition ru_Profilakticheskie_raboty :: ustr where
  "ru_Profilakticheskie_raboty = [1055, 1088, 1086, 1092, 1080, 1083, 1072, 1082, 1090, 1080, 1095, 1077, 1089, 1082, 1080, 1077, 32, 1088, 1072, 1073, 1086, 1090, 1099]"

definition ru_Tekhnicheskie_raboty :: ustr where
  "ru_Tekhnicheskie_raboty = [1058, 1077, 1093, 1085, 1080, 1095, 1077, 1089, 1082, 1080, 1077, 32, 1088, 1072, 1073, 1086, 1090, 1099]"

definition ru_obratnaya_svyaz :: ustr where
  "ru_obratnaya_svyaz = [1054, 1073, 1088, 1072, 1090, 1085, 1072, 1103, 32, 1089, 1074, 1103, 1079, 1100]"

definition ru_otpisatsya_ot_rassylki :: ustr where
  "ru_otpisatsya_ot_rassylki = [1054, 1090, 1087, 1080, 1089, 1072, 1090, 1100, 1089, 1103, 32, 1086, 1090, 32, 1088, 1072, 1089, 1089, 1099, 1083, 1082, 1080]"

definition ru_otkryt_v_brauzere :: ustr where
  "ru_otkryt_v_brauzere = [1054, 1090, 1082, 1088, 1099, 1090, 1100, 32, 1074, 32, 1073, 1088, 1072, 1091, 1079, 1077, 1088, 1077]"

definition ru_informatsionnaya_rassylka :: ustr where
  "ru_informatsionnaya_rassylka = [1048, 1085, 1092, 1086, 1088, 1084, 1072, 1094, 1080, 1086, 1085, 1085, 1072, 1103, 32, 1088, 1072, 1089, 1089, 1099, 1083, 1082, 1072]"

definition ru_besplatnaya_liniya :: ustr where
  "ru_besplatnaya_liniya = [1041, 1077, 1089, 1087, 1083, 1072, 1090, 1085, 1072, 1103, 32, 1083, 1080, 1085, 1080, 1103]"

definition ru_rossii :: ustr where
  "ru_rossii = [1056, 1086, 1089, 1089, 1080, 1080]"

definition ru_uvazhaemye_klienty :: ustr where
  "ru_uvazhaemye_klienty = [1059, 1074, 1072, 1078, 1072, 1077, 1084, 1099, 1077, 32, 1082, 1083, 1080, 1077, 1085, 1090, 1099]"

definition ru_tekhnicheskaya_podderzhka :: ustr where
  "ru_tekhnicheskaya_podderzhka = [1058, 1077, 1093, 1085, 1080, 1095, 1077, 1089, 1082, 1072, 1103, 32, 1087, 1086, 1076, 1076, 1077, 1088, 1078, 1082, 1072]"

definition ru_opisanie_nedostupno :: ustr where
  "ru_opisanie_nedostupno = [1054, 1087, 1080, 1089, 1072, 1085, 1080, 1077, 32, 1085, 1077, 1076, 1086, 1089, 1090, 1091, 1087, 1085, 1086]"

section \<open>parser.py: EmailParser\<close>

text \<open>
  The list \<open>operator_patterns\<close> of \<open>_extract_operator\<close>, searched with \<open>re.IGNORECASE\<close>.
  The class of the group is \<open>[\<dots>\w\s]\<close> with the two Cyrillic ranges U+0410..U+042F and
  U+0430..U+044F.
\<close>

definition name_cls :: cls where
  "name_cls = Either (Between 1040 1071) (Either (Between 1072 1103) (Either Wordchar Space))"

definition operator_patterns :: "pattern list" where
  "operator_patterns =
     [\<lparr>before = nocase ru_operator @ [many1 Space], group1 = [lazy1 name_cls],
       after = [many1 Space # nocase ru_soobshchil, [Eol]]\<rparr>,
      \<lparr>before = nocase ru_operatora @ [many1 Space], group1 = [lazy1 name_cls],
       after = [[One Space], [Eol], [One (Exact 46)]]\<rparr>,
      \<lparr>before = nocase ru_storone_operatora @ [many1 Space], group1 = [lazy1 name_cls],
       after = [[One Space], [Eol], [One (Exact 46)]]\<rparr>,
      \<lparr>before = nocase ru_platforme @ [many1 Space],
       group1 = nocase (u ''Devino'') @ [many1 Space] @ nocase (u ''Telecom''),
       after = [[]]\<rparr>,
      \<lparr>before = nocase ru_platformy @ [many1 Space], group1 = nocase (u ''DEVINO''),
       after = [[]]\<rparr>,
      \<lparr>before = nocase ru_raboty_na_storone_operatora @ [many1 Space],
       group1 = [lazy1 name_cls], after = [[One Space], [Eol]]\<rparr>,
      \<lparr>before = nocase ru_raboty_na_platforme @ [many1 Space],
       group1 = [lazy1 name_cls], after = [[One Space], [Eol]]\<rparr>]"

definition known_operators :: "ustr list" where
  "known_operators =
     [ru_beeline, ru_mts, ru_megafon, ru_tele2, u ''Yota'', ru_motiv, u ''Devino Telecom'']"

text \<open>\<open>re.sub(r'[^\w\s]', '', operator)\<close> keeps the word characters and the spaces.\<close>

definition word_or_space :: "nat \<Rightarrow> bool" where
  "word_or_space c = (is_word c \<or> is_space c)"

text \<open>The loop of \<open>_extract_operator\<close> over its patterns.\<close>

fun operator_by_pattern :: "pattern list \<Rightarrow> ustr \<Rightarrow> ustr option" where
  "operator_by_pattern [] text = None"
| "operator_by_pattern (p # ps) text =
     (case re_search p text of
        Some g \<Rightarrow>
          (let operator = strip (filter word_or_space (strip g)) in
           if operator \<noteq> [] then
             (if sublist (u ''devino'') (py_lower operator) then Some (u ''Devino Telecom'')
              else Some operator)
           else operator_by_pattern ps text)
      | None \<Rightarrow> operator_by_pattern ps text)"

definition extract_operator :: "ustr \<Rightarrow> ustr option" where
  "extract_operator text =
     (case operator_by_pattern operator_patterns text of
        Some operator \<Rightarrow> Some operator
      | None \<Rightarrow> find (\<lambda>operator. sublist (py_lower operator) (py_lower text)) known_operators)"

text \<open>
  \<open>self.patterns['start_time']\<close> and \<open>self.patterns['end_time']\<close>: a label, then
  \<open>[:\s]*\*?\*?\s*\<close>, then the group \<open>\d{1,2}\.\d{1,2}\.\d{4}\s+\d{1,2}:\d{2}\<close>.
\<close>

definition date_time_group :: "item list" where
  "date_time_group =
     [Rep Digit 1 (Some 2) True, One (Exact 46), Rep Digit 1 (Some 2) True, One (Exact 46),
      Rep Digit 4 (Some 4) True, many1 Space, Rep Digit 1 (Some 2) True, One (Exact 58),
      Rep Digit 2 (Some 2) True]"

definition label_end :: "item list" where
  "label_end = [many0 (Either (Exact 58) Space), opt (Exact 42), opt (Exact 42), many0 Space]"

definition start_time_patterns :: "pattern list" where
  "start_time_patterns =
     [\<lparr>before = nocase ru_nachalo_rabot @ label_end, group1 = date_time_group, after = [[]]\<rparr>,
      \<lparr>before = nocase ru_nachalo @ label_end, group1 = date_time_group, after = [[]]\<rparr>,
      \<lparr>before = nocase ru_s @ [many0 Space], group1 = date_time_group, after = [[]]\<rparr>]"

definition end_time_patterns :: "pattern list" where
  "end_time_patterns =
     [\<lparr>before = nocase ru_okonchanie_rabot @ label_end, group1 = date_time_group, after = [[]]\<rparr>,
      \<lparr>before = nocase ru_okonchanie @ label_end, group1 = date_time_group, after = [[]]\<rparr>,
      \<lparr>before = nocase ru_po @ [many0 Space], group1 = date_time_group, after = [[]]\<rparr>]"

text \<open>\<open>for pattern in \<dots>: match = re.search(\<dots>); if match: return match.group(1).strip()\<close>.\<close>

fun first_match :: "pattern list \<Rightarrow> ustr \<Rightarrow> ustr option" where
  "first_match [] text = None"
| "first_match (p # ps) text =
     (case re_search p text of
        Some g \<Rightarrow> Some (strip g)
      | None \<Rightarrow> first_match ps text)"

definition extract_start_time :: "ustr \<Rightarrow> ustr option" where
  "extract_start_time text = first_match start_time_patterns text"

definition extract_end_time :: "ustr \<Rightarrow> ustr option" where
  "extract_end_time text = first_match end_time_patterns text"

text \<open>
  \<open>_extract_work_type\<close>. The subject is cleaned by \<open>strip\<close>, by
  \<open>re.sub(r'^\s*[Rr][Ee]:\s*', '', subject)\<close> (one match at most, at the start) and by
  \<open>strip\<close> again.
\<close>

definition reply_prefix :: "item list" where
  "reply_prefix =
     [many0 Space, One (Either (Exact 82) (Exact 114)), One (Either (Exact 69) (Exact 101)),
      One (Exact 58), many0 Space]"

definition clean_subject :: "ustr \<Rightarrow> ustr" where
  "clean_subject current_subject =
     (let subject = strip current_subject in
      strip (case match_items reply_prefix subject Some of Some r \<Rightarrow> r | None \<Rightarrow> subject))"

definition work_indicators :: "ustr list" where
  "work_indicators = [ru_raboty, ru_rabot, ru_obsluzhivanie, ru_tekhnichesk]"

definition works_phrase :: "ustr \<Rightarrow> pattern" where
  "works_phrase kind =
     \<lparr>before = [],
      group1 = nocase kind @ [many1 Space] @ nocase ru_raboty @ [many0 (Except (Exact 46))],
      after = [[]]\<rparr>"

definition specific_patterns :: "pattern list" where
  "specific_patterns =
     [works_phrase ru_vneplanovye, works_phrase ru_planovye, works_phrase ru_avarijnye,
      works_phrase ru_profilakticheskie, works_phrase ru_tekhnicheskie]"

text \<open>The part of \<open>_extract_work_type\<close> that reads the text: patterns, then keywords.\<close>

definition work_type_of_text :: "ustr \<Rightarrow> ustr option" where
  "work_type_of_text text =
     (case first_match specific_patterns text of
        Some work_type \<Rightarrow> Some work_type
      | None \<Rightarrow>
          (let text_lower = py_lower text in
           if sublist ru_vneplanovye text_lower then Some ru_Vneplanovye_raboty
           else if sublist ru_planovye text_lower then Some ru_Planovye_raboty
           else if sublist ru_avarijnye text_lower then Some ru_Avarijnye_raboty
           else if sublist ru_profilakticheskie text_lower then Some ru_Profilakticheskie_raboty
           else if sublist ru_tekhnicheskikh_rabot text_lower then Some ru_Tekhnicheskie_raboty
           else None))"

text \<open>
  \<open>current_subject\<close> is the attribute \<open>_current_subject\<close>: \<open>None\<close> when the object has no
  such attribute, as outside \<open>parse_email\<close>.
\<close>

definition extract_work_type :: "ustr option \<Rightarrow> ustr \<Rightarrow> ustr option" where
  "extract_work_type current_subject text =
     (case current_subject of
        None \<Rightarrow> work_type_of_text text
      | Some s \<Rightarrow>
          if s \<noteq> [] \<and>
             list_ex (\<lambda>indicator. sublist indicator (py_lower (clean_subject s))) work_indicators
          then Some (clean_subject s)
          else work_type_of_text text)"

text \<open>\<open>_extract_description\<close>.\<close>

definition html_tag :: "item list" where
  "html_tag = [One (Exact 60), many1 (Except (Exact 62)), One (Exact 62)]"

definition phone_number :: "item list" where
  "phone_number =
     exact (u ''+7'') @
     [many0 Space, One (Exact 40), many1 Digit, One (Exact 41), many0 Space,
      many1 Digit, One (Exact 45), many1 Digit, One (Exact 45), many1 Digit]"

definition unwanted_patterns :: "item list list" where
  "unwanted_patterns =
     [nocase (u ''Copyright'') @ [lazy0 Dot] @ nocase (u ''rights reserved''),
      nocase ru_obratnaya_svyaz,
      nocase ru_otpisatsya_ot_rassylki,
      nocase ru_otkryt_v_brauzere,
      nocase ru_informatsionnaya_rassylka,
      phone_number,
      nocase ru_besplatnaya_liniya @ [lazy0 Dot] @ nocase ru_rossii]"

definition main_content_pattern :: pattern where
  "main_content_pattern =
     \<lparr>before = [],
      group1 = nocase ru_uvazhaemye_klienty @ [lazy0 DotAll],
      after = [nocase ru_tekhnicheskaya_podderzhka, nocase (u ''Copyright''),
               exact (u ''+7''), [Eol]]\<rparr>"

definition shorten :: "ustr \<Rightarrow> ustr" where
  "shorten s = (if length s > 300 then take 300 s @ u ''...'' else s)"

definition extract_description :: "ustr \<Rightarrow> ustr" where
  "extract_description b =
     (let clean_body1 = re_sub html_tag [] b;
          clean_body2 = strip (re_sub [many1 Space] [32] clean_body1);
          clean_body3 = foldl (\<lambda>s p. re_sub p [] s) clean_body2 unwanted_patterns;
          clean_body = strip (re_sub [many1 Space] [32] clean_body3)
      in case re_search main_content_pattern clean_body of
           Some g \<Rightarrow> shorten (strip g)
         | None \<Rightarrow>
             if shorten clean_body \<noteq> [] then shorten clean_body else ru_opisanie_nedostupno)"

text \<open>
  The dictionary \<open>parse_email\<close> returns. \<open>parsed_at\<close> is the clock's time, handed in as
  \<open>now\<close>.
\<close>

record parsed_data =
  original_subject :: ustr
  original_body :: ustr
  email_date :: ustr
  email_from :: ustr
  operator_name :: "ustr option"
  start_time :: "ustr option"
  end_time :: "ustr option"
  work_type :: "ustr option"
  description :: ustr
  parsed_at :: int

text \<open>Python's truth value of an extracted field: \<open>None\<close> and the empty text are false.\<close>

definition truthy :: "ustr option \<Rightarrow> bool" where
  "truthy v = (case v of None \<Rightarrow> False | Some s \<Rightarrow> s \<noteq> [])"

definition parse_email :: "int \<Rightarrow> email_data \<Rightarrow> parsed_data option" where
  "parse_email now email =
     (let full_text = subject email @ [10] @ body email;
          parsed =
            \<lparr>original_subject = subject email,
             original_body = body email,
             email_date = date email,
             email_from = from_addr email,
             operator_name = extract_operator full_text,
             start_time = extract_start_time full_text,
             end_time = extract_end_time full_text,
             work_type = extract_work_type (Some (subject email)) full_text,
             description = extract_description (body email),
             parsed_at = now\<rparr>
      in if truthy (operator_name parsed) \<or> truthy (start_time parsed)
            \<or> truthy (end_time parsed)
         then Some parsed else None)"

section \<open>Concrete inputs\<close>

text \<open>
  A notifier with an empty ledger, and 101 one-character messages, each delivered and
  saved; the digest used with them is the identity, which keeps them apart.
\<close>

definition empty_notifier :: notifier where
  "empty_notifier = \<lparr>sent_messages = [], sent_messages_file = None, api_calls = []\<rparr>"

definition demo_sends :: "(ustr \<times> io) list" where
  "demo_sends = map (\<lambda>i. ([i], \<lparr>bot_send = Sent i, file_write_ok = True\<rparr>)) [0..<101]"

definition demo_ledger :: notifier where
  "demo_ledger = \<lparr>sent_messages = [u ''abc''], sent_messages_file = Some [u ''abc''], api_calls = []\<rparr>"

text \<open>
  A small codec library for the examples: UTF-8 restricted to ASCII, cp1251 restricted
  to ASCII and the Cyrillic letters (bytes \<open>0xC0..0xFF\<close>, mapped to U+0410..U+044F).
\<close>

definition ascii_codecs :: codecs where
  "ascii_codecs =
     \<lparr>decode_utf8 = (\<lambda>b. if list_all (\<lambda>c. (of_char c :: nat) < 128) b
                          then Some (map of_char b) else None),
      decode_cp1251 = (\<lambda>b. if list_all (\<lambda>c. (of_char c :: nat) < 128 \<or> 192 \<le> (of_char c :: nat)) b
                            then Some (map (\<lambda>c. if (of_char c :: nat) < 128 then of_char c
                                                 else of_char c + 848) b)
                            else None),
      decode_utf8_ignore = (\<lambda>b. map of_char (filter (\<lambda>c. (of_char c :: nat) < 128) b))\<rparr>"

text \<open>
  A multipart message: the container, an HTML part, a plain-text attachment and a
  plain-text part.
\<close>

definition notice :: email_message where
  "notice =
     \<lparr>subject_header = u ''Planned works'',
      from_header = u ''sender@domain.ru'',
      date_field = u ''13:00 +0300'',
      is_multipart = True,
      walk =
        [\<lparr>content_type = u ''multipart/mixed'', content_disposition = u ''None'',
          part_payload = None\<rparr>,
         \<lparr>content_type = u ''text/html'', content_disposition = u ''None'',
          part_payload = Some ''<p>Works</p>''\<rparr>,
         \<lparr>content_type = u ''text/plain'',
          content_disposition = u ''attachment; filename=log.txt'',
          part_payload = Some ''log''\<rparr>,
         \<lparr>content_type = u ''text/plain'', content_disposition = u ''None'',
          part_payload = Some '' Works at 21:00 ''\<rparr>],
      payload = None\<rparr>"

text \<open>
  A server that answers every call and holds three messages of the sender, dated 11:00,
  12:00 and 13:00 of the same day; the clock stands at 14:00 and the checkpoint at 12:00.
\<close>

definition june_env :: imap_env where
  "june_env =
     \<lparr>link = (\<lambda>t. None),
      login_status = OK, select_status = OK, noop_status = OK,
      search_result = (\<lambda>sender day. if day = 0 then (OK, [101, 102, 103]) else (OK, [])),
      date_header = (\<lambda>i. if i = 101 then (OK, Some (u ''Date: 11:00 +0300''))
                          else if i = 102 then (OK, Some (u ''DATE: 12:00 +0300''))
                          else if i = 103 then (OK, Some (u ''Date:  13:00 +0300'' @ [13, 10, 13, 10]))
                          else (NO, None)),
      rfc822 = (\<lambda>i. if i = 103 then (OK, Some notice) else (NO, None)),
      parsedate = (\<lambda>s. if s = u ''11:00 +0300'' then Inr (hours 11, Some 180)
                        else if s = u ''12:00 +0300'' then Inr (hours 12, Some 180)
                        else if s = u ''13:00 +0300'' then Inr (hours 13, Some 180)
                        else Inl (u ''invalid date'')),
      codec = ascii_codecs,
      state_file_writable = True\<rparr>"

definition june_world :: world where
  "june_world =
     \<lparr>connection = True, state_file = Some (hours 12), clock = hours 14, calls = 0, events = []\<rparr>"


text \<open>A server that refuses every connection.\<close>

definition refused_env :: imap_env where
  "refused_env = june_env\<lparr>link := (\<lambda>t. Some (u ''[Errno 111] Connection refused''))\<rparr>"

definition offline_world :: world where
  "offline_world =
     \<lparr>connection = False, state_file = Some (hours 12), clock = hours 14, calls = 0, events = []\<rparr>"

text \<open>A server whose link breaks after the first call: \<open>noop\<close> is answered, the search raises.\<close>

definition broken_search_env :: imap_env where
  "broken_search_env =
     june_env\<lparr>link := (\<lambda>t. if t = 0 then None else Some (u ''socket error: EOF''))\<rparr>"


text \<open>
  Three messages: one that names an operator and nothing else, one with nothing but a
  text to describe, and a reply whose subject announces unscheduled works on platform X
  (\<open>Re: Vneplanovye raboty na platforme X\<close>) with a body that says "details later".
  \<open>emergency_text\<close> is a text with a phrase of its own, "Avarijnye raboty.".
\<close>

definition operator_only_mail :: email_data where
  "operator_only_mail =
     \<lparr>msg_id = 7, subject = ru_beeline, from_addr = u ''sender@domain.ru'',
      date = u ''13:00 +0300'', body = []\<rparr>"

definition description_only_mail :: email_data where
  "description_only_mail =
     \<lparr>msg_id = 8, subject = u ''Hello'', from_addr = u ''sender@domain.ru'',
      date = u ''13:00 +0300'', body = u ''Just a description.''\<rparr>"

definition reply_subject :: ustr where
  "reply_subject = [82, 101, 58, 32, 1042, 1085, 1077, 1087, 1083, 1072, 1085, 1086, 1074, 1099, 1077, 32, 1088, 1072, 1073, 1086, 1090, 1099, 32, 1085, 1072, 32, 1087, 1083, 1072, 1090, 1092, 1086, 1088, 1084, 1077, 32, 88]"

definition reply_subject_cleaned :: ustr where
  "reply_subject_cleaned = [1042, 1085, 1077, 1087, 1083, 1072, 1085, 1086, 1074, 1099, 1077, 32, 1088, 1072, 1073, 1086, 1090, 1099, 32, 1085, 1072, 32, 1087, 1083, 1072, 1090, 1092, 1086, 1088, 1084, 1077, 32, 88]"

definition reply_mail :: email_data where
  "reply_mail =
     \<lparr>msg_id = 9, subject = reply_subject, from_addr = u ''sender@domain.ru'',
      date = u ''13:00 +0300'', body = [1055, 1086, 1076, 1088, 1086, 1073, 1085, 1086, 1089, 1090, 1080, 32, 1087, 1086, 1079, 1078, 1077, 46]\<rparr>"

definition emergency_text :: ustr where
  "emergency_text = [1040, 1074, 1072, 1088, 1080, 1081, 1085, 1099, 1077, 32, 1088, 1072, 1073, 1086, 1090, 1099, 46]"

section \<open>Properties of the ledger\<close>

lemma last_n_length: "length (last_n k xs) \<le> k"
  by (simp add: last_n_def)

lemma last_n_short: "length xs \<le> k \<Longrightarrow> last_n k xs = xs"
  by (simp add: last_n_def)

lemma last_n_last_n_append: "last_n k (last_n k xs @ ys) = last_n k (xs @ ys)"
  by (cases "length xs \<le> k") (simp_all add: last_n_def add.commute)

lemma save_sent_messages_mem:
  "sent_messages (save_sent_messages wok n) = last_n 100 (sent_messages n)"
  by (simp add: save_sent_messages_def Let_def last_n_short)

lemma save_sent_messages_file:
  "sent_messages_file (save_sent_messages True n) = Some (last_n 100 (sent_messages n))"
  by (simp add: save_sent_messages_def Let_def last_n_short)

lemma save_sent_messages_calls:
  "api_calls (save_sent_messages wok n) = api_calls n"
  by (simp add: save_sent_messages_def Let_def)

lemma set_last_n: "set (last_n k xs) \<subseteq> set xs"
  by (simp add: last_n_def set_drop_subset)

lemma send_message_delivered:
  assumes "encodable message" and "delivered_ok env"
    and "hash_of md5 message \<notin> set (sent_messages n)"
  shows "sent_messages (snd (send_message md5 env message n)) =
           last_n 100 (sent_messages n @ [hash_of md5 message])"
    and "sent_messages_file (snd (send_message md5 env message n)) =
           Some (last_n 100 (sent_messages n @ [hash_of md5 message]))"
  using assms
  by (auto simp: send_message_def create_message_hash_def hash_of_def delivered_ok_def
      save_sent_messages_mem save_sent_messages_file Let_def)

lemma send_all_ledger:
  assumes "\<forall>(m, e) \<in> set ms. encodable m \<and> delivered_ok e"
    and "distinct (map (\<lambda>(m, e). hash_of md5 m) ms)"
    and "\<forall>(m, e) \<in> set ms. hash_of md5 m \<notin> set (sent_messages n)"
  shows "last_n 100 (sent_messages (send_all md5 ms n)) =
           last_n 100 (sent_messages n @ map (\<lambda>(m, e). hash_of md5 m) ms)"
  using assms
proof (induction ms arbitrary: n)
  case Nil
  then show ?case by simp
next
  case (Cons p ms)
  obtain m e where p: "p = (m, e)" by (cases p)
  let ?n1 = "snd (send_message md5 e m n)"
  from Cons.prems p have ok: "encodable m" "delivered_ok e"
    "hash_of md5 m \<notin> set (sent_messages n)" by auto
  have n1: "sent_messages ?n1 = last_n 100 (sent_messages n @ [hash_of md5 m])"
    by (rule send_message_delivered(1) [OF ok])
  have fresh: "\<forall>(m', e') \<in> set ms. hash_of md5 m' \<notin> set (sent_messages ?n1)"
  proof (clarify)
    fix m' e' assume in_ms: "(m', e') \<in> set ms"
      and mem: "hash_of md5 m' \<in> set (sent_messages ?n1)"
    from mem n1 set_last_n [of 100 "sent_messages n @ [hash_of md5 m]"]
    have "hash_of md5 m' \<in> set (sent_messages n) \<or> hash_of md5 m' = hash_of md5 m"
      by auto
    moreover from Cons.prems(3) in_ms have "hash_of md5 m' \<notin> set (sent_messages n)"
      by auto
    moreover from Cons.prems(2) p in_ms have "hash_of md5 m' \<noteq> hash_of md5 m"
      by force
    ultimately show False by simp
  qed
  have "last_n 100 (sent_messages (send_all md5 ms ?n1)) =
          last_n 100 (sent_messages ?n1 @ map (\<lambda>(m, e). hash_of md5 m) ms)"
    using Cons.IH [of ?n1] Cons.prems fresh by simp
  then show ?case
    by (simp add: p n1 last_n_last_n_append)
qed

lemma send_message_bounded:
  "length (sent_messages n) \<le> 100 \<Longrightarrow>
   length (sent_messages (snd (send_message md5 env message n))) \<le> 100"
  by (auto simp: send_message_def save_sent_messages_mem last_n_length Let_def
      split: sum.splits send_result.splits)

lemma send_all_bounded:
  "length (sent_messages n) \<le> 100 \<Longrightarrow> length (sent_messages (send_all md5 ms n)) \<le> 100"
proof (induction ms arbitrary: n)
  case Nil
  then show ?case by simp
next
  case (Cons p ms)
  then show ?case by (cases p) (simp add: send_message_bounded)
qed

lemma send_all_bounded_after_delivery:
  assumes "ms \<noteq> []" and "\<forall>(m, e) \<in> set ms. encodable m \<and> delivered_ok e"
    and "\<forall>(m, e) \<in> set ms. hash_of md5 m \<notin> set (sent_messages n)"
  shows "length (sent_messages (send_all md5 ms n)) \<le> 100"
proof (cases ms)
  case Nil
  with assms show ?thesis by simp
next
  case (Cons p rest)
  obtain m e where p: "p = (m, e)" by (cases p)
  from assms Cons p have ok: "encodable m" "delivered_ok e"
    "hash_of md5 m \<notin> set (sent_messages n)" by auto
  have "length (sent_messages (snd (send_message md5 e m n))) \<le> 100"
    by (simp add: send_message_delivered(1) [OF ok] last_n_length)
  then show ?thesis
    by (simp add: Cons p send_all_bounded)
qed

lemma last_n_append_long: "k \<le> length ys \<Longrightarrow> last_n k (xs @ ys) = last_n k ys"
  by (simp add: last_n_def)

lemma send_all_file:
  assumes "ms \<noteq> []" and "\<forall>(m, e) \<in> set ms. encodable m \<and> delivered_ok e"
    and "distinct (map (\<lambda>(m, e). hash_of md5 m) ms)"
    and "\<forall>(m, e) \<in> set ms. hash_of md5 m \<notin> set (sent_messages n)"
  shows "sent_messages_file (send_all md5 ms n) = Some (sent_messages (send_all md5 ms n))"
  using assms
proof (induction ms arbitrary: n rule: list_nonempty_induct)
  case (single p)
  obtain m e where p: "p = (m, e)" by (cases p)
  from single p have ok: "encodable m" "delivered_ok e"
    "hash_of md5 m \<notin> set (sent_messages n)" by auto
  show ?case
    by (simp add: p send_message_delivered [OF ok])
next
  case (cons p ms)
  obtain m e where p: "p = (m, e)" by (cases p)
  let ?n1 = "snd (send_message md5 e m n)"
  from cons.prems p have ok: "encodable m" "delivered_ok e"
    "hash_of md5 m \<notin> set (sent_messages n)" by auto
  have n1: "sent_messages ?n1 = last_n 100 (sent_messages n @ [hash_of md5 m])"
    by (rule send_message_delivered(1) [OF ok])
  have fresh: "\<forall>(m', e') \<in> set ms. hash_of md5 m' \<notin> set (sent_messages ?n1)"
  proof (clarify)
    fix m' e' assume in_ms: "(m', e') \<in> set ms"
      and mem: "hash_of md5 m' \<in> set (sent_messages ?n1)"
    from mem n1 set_last_n [of 100 "sent_messages n @ [hash_of md5 m]"]
    have "hash_of md5 m' \<in> set (sent_messages n) \<or> hash_of md5 m' = hash_of md5 m"
      by auto
    moreover from cons.prems(3) in_ms have "hash_of md5 m' \<notin> set (sent_messages n)"
      by auto
    moreover from cons.prems(2) p in_ms have "hash_of md5 m' \<noteq> hash_of md5 m"
      by force
    ultimately show False by simp
  qed
  have "sent_messages_file (send_all md5 ms ?n1) = Some (sent_messages (send_all md5 ms ?n1))"
    using cons.IH [of ?n1] cons.prems fresh by simp
  then show ?case by (simp add: p)
qed

text \<open>
  Claim C9. After every save the ledger holds at most 100 entries, in memory and in the
  file. After 101 deliveries with pairwise different hashes, none of them in the ledger
  before, each saved to the file, the file holds exactly the hashes of the last 100
  messages in the order they were sent: the hash of the first message is gone.
\<close>

theorem ledger_cap:
  assumes "length ms = 101"
    and "\<forall>(m, e) \<in> set ms. encodable m \<and> delivered_ok e"
    and "distinct (map (\<lambda>(m, e). hash_of md5 m) ms)"
    and "\<forall>(m, e) \<in> set ms. hash_of md5 m \<notin> set (sent_messages n)"
  shows "sent_messages_file (send_all md5 ms n) =
           Some (last_n 100 (map (\<lambda>(m, e). hash_of md5 m) ms))
       \<and> sent_messages (send_all md5 ms n) = last_n 100 (map (\<lambda>(m, e). hash_of md5 m) ms)
       \<and> last_n 100 (map (\<lambda>(m, e). hash_of md5 m) ms) = tl (map (\<lambda>(m, e). hash_of md5 m) ms)
       \<and> (\<forall>wok n'. length (sent_messages (save_sent_messages wok n')) \<le> 100)
       \<and> (\<forall>n'. \<exists>hs. sent_messages_file (save_sent_messages True n') = Some hs
              \<and> length hs \<le> 100)"
proof -
  let ?hs = "map (\<lambda>(m, e). hash_of md5 m) ms"
  from assms(1) have ne: "ms \<noteq> []" by auto
  have bounded: "length (sent_messages (send_all md5 ms n)) \<le> 100"
    by (rule send_all_bounded_after_delivery [OF ne assms(2) assms(4)])
  have "last_n 100 (sent_messages (send_all md5 ms n)) = last_n 100 (sent_messages n @ ?hs)"
    by (rule send_all_ledger [OF assms(2) assms(3) assms(4)])
  with bounded assms(1) have mem: "sent_messages (send_all md5 ms n) = last_n 100 ?hs"
    by (simp add: last_n_short last_n_append_long)
  have pers: "sent_messages_file (send_all md5 ms n) = Some (last_n 100 ?hs)"
    using send_all_file [OF ne assms(2) assms(3) assms(4)] mem by simp
  have evict: "last_n 100 ?hs = tl ?hs"
    using assms(1) by (simp add: last_n_def drop_Suc)
  have cap1: "\<forall>wok n'. length (sent_messages (save_sent_messages wok n')) \<le> 100"
    by (simp add: save_sent_messages_mem last_n_length)
  have cap2: "\<forall>n'. \<exists>hs. sent_messages_file (save_sent_messages True n') = Some hs
      \<and> length hs \<le> 100"
    by (simp add: save_sent_messages_file last_n_length)
  from pers mem evict cap1 cap2 show ?thesis by blast
qed

theorem ledger_cap_witness:
  "sent_messages_file (send_all (\<lambda>m. m) demo_sends empty_notifier)
     = Some (map (\<lambda>i. [i]) [1..<101])"
proof -
  have h1: "length demo_sends = 101"
    by (simp add: demo_sends_def)
  have h2: "\<forall>(m, e) \<in> set demo_sends. encodable m \<and> delivered_ok e"
    by (auto simp: demo_sends_def encodable_def delivered_ok_def)
  have hs: "map (\<lambda>(m, e). hash_of (\<lambda>m. m) m) demo_sends = map (\<lambda>i. [i]) [0..<101]"
    by (simp add: demo_sends_def hash_of_def)
  have h3: "distinct (map (\<lambda>(m, e). hash_of (\<lambda>m. m) m) demo_sends)"
    unfolding hs by (simp add: distinct_map inj_on_def)
  have h4: "\<forall>(m, e) \<in> set demo_sends. hash_of (\<lambda>m. m) m \<notin> set (sent_messages empty_notifier)"
    by (simp add: empty_notifier_def)
  have "last_n 100 (map (\<lambda>i. [i]) [0..<101]) = map (\<lambda>i. [i::nat]) [1..<101]"
    by (simp add: last_n_def drop_map)
  with ledger_cap [OF h1 h2 h3 h4] hs show ?thesis by simp
qed

text \<open>
  Claim C10. When the hash of the message is already in the ledger, \<open>send_message\<close>
  answers \<open>True\<close> and leaves the notifier as it was: the API is not called and neither
  the list nor the file changes. A delivery answers \<open>True\<close> as well, so the caller
  cannot tell the two apart from the result.
\<close>

theorem duplicate_suppressed:
  assumes "create_message_hash md5 message = Inr h"
    and "h \<in> set (sent_messages n)"
  shows "send_message md5 env message n = (True, n)
       \<and> (\<forall>n' i wok. fst (send_message md5 \<lparr>bot_send = Sent i, file_write_ok = wok\<rparr> message n')
              = fst (send_message md5 env message n))"
  using assms
  by (auto simp: send_message_def Let_def split: sum.splits)

theorem duplicate_suppressed_witness:
  "send_message (\<lambda>m. m) \<lparr>bot_send = TelegramError (u ''forbidden''), file_write_ok = False\<rparr>
     (u ''abc'') demo_ledger = (True, demo_ledger)"
proof -
  have h1: "create_message_hash (\<lambda>m. m) (u ''abc'') = Inr (u ''abc'')"
    by (simp add: create_message_hash_def encodable_def u_def)
  have h2: "u ''abc'' \<in> set (sent_messages demo_ledger)"
    by (simp add: demo_ledger_def)
  from duplicate_suppressed [OF h1 h2] show ?thesis by blast
qed

section \<open>Properties of the mail client\<close>

subsection \<open>What the connection methods leave alone\<close>


lemma same_store_trans: "same_store w w1 \<Longrightarrow> same_store w1 w2 \<Longrightarrow> same_store w w2"
  by (simp add: same_store_def)

lemma imap_call_store: "same_store w (snd (imap_call env w))"
  by (simp add: imap_call_def same_store_def)

lemma connect_store: "same_store w (snd (connect env w))"
  by (simp add: connect_def imap_call_def same_store_def split: option.splits)

lemma select_mailbox_store: "same_store w (snd (select_mailbox env w))"
  by (simp add: select_mailbox_def imap_call_def same_store_def split: option.splits)

lemma disconnect_internal_store: "same_store w (disconnect_internal env w)"
  by (simp add: disconnect_internal_def imap_call_def same_store_def split: option.splits)

lemma connect_and_select_store: "same_store w (snd (connect_and_select env w))"
proof -
  obtain c w1 where c: "connect env w = (c, w1)" by (cases "connect env w")
  with connect_store [of w env] have s1: "same_store w w1" by simp
  show ?thesis
  proof (cases c)
    case True
    with c have "snd (connect_and_select env w) = snd (select_mailbox env w1)"
      by (simp add: connect_and_select_def)
    with select_mailbox_store [of w1 env] s1 show ?thesis
      by (auto intro: same_store_trans)
  next
    case False
    with c s1 show ?thesis by (simp add: connect_and_select_def)
  qed
qed

lemma ensure_connection_store: "same_store w (snd (ensure_connection env w))"
proof (cases "connection w")
  case False
  then show ?thesis
    by (simp add: ensure_connection_def connect_and_select_store)
next
  case True
  obtain r w1 where r: "imap_call env w = (r, w1)" by (cases "imap_call env w")
  with imap_call_store [of w env] have s1: "same_store w w1" by simp
  have s2: "same_store w (snd (connect_and_select env (disconnect_internal env w1)))"
    using s1 disconnect_internal_store [of w1 env]
      connect_and_select_store [of "disconnect_internal env w1" env]
    by (blast intro: same_store_trans)
  from True r s1 s2 show ?thesis
    by (simp add: ensure_connection_def split: option.splits)
qed






subsection \<open>One attempt\<close>





subsection \<open>The loop over the attempts, with the client's own \<open>try\<close> body\<close>


subsection \<open>The search\<close>

lemma get_email_date_eq:
  "get_email_date env i w =
     (if link env (calls w) = None then header_date env i else None,
      w\<lparr>calls := Suc (calls w)\<rparr>)"
  by (simp add: get_email_date_def imap_call_def split: option.splits)

lemma kept_head:
  "kept env T (c, i) =
     (case (if link env c = None then header_date env i else None) of
        Some d \<Rightarrow> T < d
      | None \<Rightarrow> False)"
  by (simp add: kept_def newer_def)

lemma keep_new_eq:
  "fst (keep_new env T ids w) = map snd (filter (kept env T) (enumerate (calls w) ids))
   \<and> calls (snd (keep_new env T ids w)) = calls w + length ids"
proof (induction ids arbitrary: w)
  case Nil
  then show ?case by simp
next
  case (Cons i ids)
  let ?w1 = "w\<lparr>calls := Suc (calls w)\<rparr>"
  let ?d = "if link env (calls w) = None then header_date env i else None"
  obtain ns w2 where ns: "keep_new env T ids ?w1 = (ns, w2)"
    by (cases "keep_new env T ids ?w1")
  from Cons.IH [of ?w1] ns
  have ih: "ns = map snd (filter (kept env T) (enumerate (Suc (calls w)) ids))"
    and c2: "calls w2 = Suc (calls w) + length ids" by simp_all
  have step: "keep_new env T (i # ids) w =
      (case ?d of
         Some d \<Rightarrow> if d > T then (i # ns, w2) else (ns, w2)
       | None \<Rightarrow> (ns, w2))"
    by (simp only: keep_new.simps get_email_date_eq ns prod.case)
  show ?case
  proof (cases ?d)
    case None
    with step have "keep_new env T (i # ids) w = (ns, w2)" by simp
    moreover from None have "\<not> kept env T (calls w, i)" by (simp only: kept_head) simp
    ultimately show ?thesis using ih c2 by simp
  next
    case (Some d)
    with step have k: "keep_new env T (i # ids) w = (if d > T then (i # ns, w2) else (ns, w2))"
      by simp
    from Some have "kept env T (calls w, i) = (T < d)" by (simp only: kept_head) simp
    with k ih c2 show ?thesis by simp
  qed
qed

lemma kept_when_link_up:
  assumes "\<forall>t. link env t = None"
  shows "map snd (filter (kept env T) (enumerate c ids)) = filter (newer env T) ids"
  using assms by (induction ids arbitrary: c) (simp_all add: kept_def)

text \<open>
  Claim C1. With a checkpoint \<open>T\<close> in the state file and a search that answers \<open>OK\<close> with
  the candidates \<open>ids\<close>, \<open>search_new_emails_from_sender\<close> returns, in the order of the
  answer, exactly the candidates whose header fetch does not raise and whose \<open>Date\<close>
  header parses to a time (its wall-clock fields, the offset dropped) strictly after
  \<open>T\<close>; when no call raises these are the candidates with \<open>newer env T\<close>. A candidate
  without a parsed date is not returned.
\<close>

theorem exact_boundary_filter:
  assumes "connection w" and "state_file w = Some T" and "link env (calls w) = None"
    and "search_result env sender (day_of T) = (OK, ids)"
  shows "fst (search_new_emails_from_sender env sender w) =
           map snd (filter (kept env T) (enumerate (Suc (calls w)) ids))
       \<and> ((\<forall>t. link env t = None) \<longrightarrow>
            fst (search_new_emails_from_sender env sender w) = filter (newer env T) ids)
       \<and> (\<forall>i d. header_date env i = Some d \<longrightarrow> newer env T i = (T < d))
       \<and> (\<forall>i. header_date env i = None \<longrightarrow> \<not> newer env T i)"
proof -
  let ?w1 = "w\<lparr>calls := Suc (calls w)\<rparr>"
  have call: "imap_call env w = (None, ?w1)"
    using assms(3) by (simp add: imap_call_def)
  have since: "since_date w = day_of T"
    using assms(2) by (simp add: since_date_def load_last_check_time_def)
  have res: "fst (search_new_emails_from_sender env sender w) = fst (keep_new env T ids ?w1)"
  proof (cases "ids = []")
    case True
    with assms call since show ?thesis
      by (simp add: search_new_emails_from_sender_def load_last_check_time_def)
  next
    case False
    with assms call since show ?thesis
      by (simp add: search_new_emails_from_sender_def load_last_check_time_def)
  qed
  have general: "fst (search_new_emails_from_sender env sender w) =
      map snd (filter (kept env T) (enumerate (Suc (calls w)) ids))"
    using res keep_new_eq [of env T ids ?w1] by simp
  have up: "(\<forall>t. link env t = None) \<longrightarrow>
      fst (search_new_emails_from_sender env sender w) = filter (newer env T) ids"
    using general by (simp add: kept_when_link_up)
  have n1: "\<forall>i d. header_date env i = Some d \<longrightarrow> newer env T i = (T < d)"
    by (simp add: newer_def)
  have n2: "\<forall>i. header_date env i = None \<longrightarrow> \<not> newer env T i"
    by (simp add: newer_def)
  from general up n1 n2 show ?thesis by blast
qed

lemma june_dates:
  "header_date june_env 101 = Some (hours 11)"
  "header_date june_env 102 = Some (hours 12)"
  "header_date june_env 103 = Some (hours 13)"
  by (simp_all add: header_date_def june_env_def u_def py_lower_def lower_cp_def
      strip_def is_space_def hours_def)

theorem exact_boundary_filter_witness:
  "fst (search_new_emails_from_sender june_env (u ''sender@domain.ru'') june_world) = [103]"
proof -
  have h1: "connection june_world" by (simp add: june_world_def)
  have h2: "state_file june_world = Some (hours 12)" by (simp add: june_world_def)
  have h3: "link june_env (calls june_world) = None" by (simp add: june_env_def)
  have h4: "search_result june_env (u ''sender@domain.ru'') (day_of (hours 12)) = (OK, [101, 102, 103])"
    by (simp add: june_env_def day_of_def hours_def)
  have up: "\<forall>t. link june_env t = None" by (simp add: june_env_def)
  from exact_boundary_filter [OF h1 h2 h3 h4] up
  have "fst (search_new_emails_from_sender june_env (u ''sender@domain.ru'') june_world) =
          filter (newer june_env (hours 12)) [101, 102, 103]"
    by blast
  also have "\<dots> = [103]"
    by (simp add: newer_def june_dates hours_def)
  finally show ?thesis .
qed



subsection \<open>The checkpoint\<close>






subsection \<open>A server that cannot be reached\<close>

lemma fetch_attempt_link_down:
  assumes "\<forall>t. link env t \<noteq> None" and "\<not> connection w"
  shows "fetch_attempt env s us w = (Inr None, w\<lparr>calls := Suc (calls w)\<rparr>)"
proof -
  from assms(1) obtain e where "link env (calls w) = Some e" by auto
  with assms(2) show ?thesis
    by (simp add: fetch_attempt_def ensure_connection_def connect_and_select_def connect_def
        imap_call_def)
qed

lemma ensure_connection_link_down:
  assumes "\<forall>t. link env t \<noteq> None"
  shows "\<not> fst (ensure_connection env w) \<and> \<not> connection (snd (ensure_connection env w))"
proof -
  have down: "\<exists>e. link env t = Some e" for t using assms by auto
  have cs: "\<not> connection v \<Longrightarrow>
      \<not> fst (connect_and_select env v) \<and> \<not> connection (snd (connect_and_select env v))" for v
    using down [of "calls v"]
    by (auto simp: connect_and_select_def connect_def imap_call_def)
  have dis: "\<not> connection (disconnect_internal env v)" for v
    by (simp add: disconnect_internal_def imap_call_def split: option.splits)
  show ?thesis
  proof (cases "connection w")
    case False
    with cs [of w] show ?thesis by (simp add: ensure_connection_def)
  next
    case True
    from down [of "calls w"] obtain e where e: "link env (calls w) = Some e" ..
    with True cs [OF dis] show ?thesis
      by (simp add: ensure_connection_def imap_call_def)
  qed
qed

text \<open>
  When every call into the library raises, each attempt ends in \<open>continue\<close>: the attempts
  follow one another without any \<open>time.sleep\<close>, and the checkpoint is left alone.
\<close>

lemma link_down_no_delay:
  assumes "\<forall>t. link env t \<noteq> None"
  shows "\<exists>w'. attempt_loop env (fetch_attempt env s us) rc todo w = (Failed, w')
           \<and> events w' = events w @ map Attempt todo
           \<and> state_file w' = state_file w \<and> clock w' = clock w"
proof (induction todo arbitrary: w)
  case Nil
  then show ?case by simp
next
  case (Cons attempt rest)
  let ?w0 = "w\<lparr>events := events w @ [Attempt attempt]\<rparr>"
  obtain c w1 where c: "ensure_connection env ?w0 = (c, w1)"
    by (cases "ensure_connection env ?w0")
  with ensure_connection_link_down [OF assms, of ?w0] have nc: "\<not> c" by simp
  from c ensure_connection_store [of ?w0 env] have st: "same_store ?w0 w1" by simp
  from c nc have att: "fetch_attempt env s us ?w0 = (Inr None, w1)"
    by (simp add: fetch_attempt_def)
  from Cons.IH [of w1] obtain w' where
    w': "attempt_loop env (fetch_attempt env s us) rc rest w1 = (Failed, w')"
      "events w' = events w1 @ map Attempt rest"
      "state_file w' = state_file w1" "clock w' = clock w1"
    by blast
  from att w' st show ?case
    by (simp add: same_store_def)
qed

lemma refused_fetch:
  "fetch_new_emails refused_env (u ''sender@domain.ru'') True 3 offline_world =
     (Failed, offline_world\<lparr>calls := 3, events := [Attempt 0, Attempt 1, Attempt 2]\<rparr>)"
proof -
  have down: "\<forall>t. link refused_env t \<noteq> None" by (simp add: refused_env_def)
  have range3: "[0..<nat 3] = [0, 1, 2]" by (simp add: upt_rec)
  show ?thesis
    unfolding fetch_new_emails_def retry_loop_def range3
    by (simp add: fetch_attempt_link_down [OF down] offline_world_def)
qed

text \<open>
  When the link breaks during the search, \<open>search_new_emails_from_sender\<close> catches the
  error and answers with the empty list: the first attempt returns, nothing is retried,
  and the checkpoint moves to the clock's time.
\<close>

lemma broken_search_single_attempt:
  "get_new_emails_from_sender broken_search_env (u ''sender@domain.ru'') True 3 june_world =
     ([], june_world\<lparr>state_file := Some (hours 14), calls := 2, events := [Attempt 0]\<rparr>)"
proof -
  have l0: "link broken_search_env 0 = None"
    and l1: "link broken_search_env (Suc 0) = Some (u ''socket error: EOF'')"
    and st: "noop_status broken_search_env = OK" "state_file_writable broken_search_env"
    by (simp_all add: broken_search_env_def june_env_def)
  have ens: "ensure_connection broken_search_env (june_world\<lparr>events := [Attempt 0]\<rparr>) =
      (True, june_world\<lparr>calls := Suc 0, events := [Attempt 0]\<rparr>)"
    by (simp add: ensure_connection_def imap_call_def l0 st june_world_def)
  have srch: "search_new_emails_from_sender broken_search_env (u ''sender@domain.ru'')
      (june_world\<lparr>calls := Suc 0, events := [Attempt 0]\<rparr>) =
      ([], june_world\<lparr>calls := 2, events := [Attempt 0]\<rparr>)"
    by (simp add: search_new_emails_from_sender_def imap_call_def l1 june_world_def)
  have att: "fetch_attempt broken_search_env (u ''sender@domain.ru'') True
               (june_world\<lparr>events := [Attempt 0]\<rparr>) =
      (Inr (Some []),
       june_world\<lparr>state_file := Some (hours 14), calls := 2, events := [Attempt 0]\<rparr>)"
    by (simp only: fetch_attempt_def ens srch prod.case bool.case if_True)
       (simp add: save_last_check_time_def st june_world_def)
  have "[0..<nat 3] = [0, 1, 2]" by (simp add: upt_rec)
  then show ?thesis
    using att
    by (simp add: get_new_emails_from_sender_def fetch_new_emails_def retry_loop_def
        june_world_def)
qed

text \<open>
  Claim C3, at a server that refuses every connection, with the default retry count:
  three attempts are made and the empty list is returned, but \<open>time.sleep\<close> is never
  called. The failures are caught inside \<open>connect\<close>, so each attempt ends in \<open>continue\<close>
  and the handler that holds the delay is not entered.
\<close>

theorem refused_three_attempts_no_delay:
  "get_new_emails_from_sender refused_env (u ''sender@domain.ru'') True 3 offline_world =
     ([], offline_world\<lparr>calls := 3, events := [Attempt 0, Attempt 1, Attempt 2]\<rparr>)"
  by (simp add: get_new_emails_from_sender_def refused_fetch)


subsection \<open>The handler of the retry loop\<close>






subsection \<open>Message bodies\<close>





section \<open>Properties of the parser\<close>

subsection \<open>Strings\<close>

lemma sublist_py_lower: "sublist a b \<Longrightarrow> sublist (py_lower a) (py_lower b)"
  unfolding sublist_def py_lower_def by (metis map_append)

lemma strip_Nil: "strip [] = []"
  by (simp add: strip_def)

lemma strip_nonempty:
  assumes "g \<noteq> []" and "\<not> is_space (hd g)"
  shows "strip g \<noteq> []"
proof -
  from assms obtain x xs where g: "g = x # xs" "\<not> is_space x" by (cases g) auto
  then have "dropWhile is_space g = x # xs" by simp
  moreover have "dropWhile is_space (rev (x # xs)) \<noteq> []"
    using g(2) by (simp add: dropWhile_append)
  ultimately show ?thesis by (simp add: strip_def)
qed

subsection \<open>What a match consumes\<close>

lemma first_some_Some: "first_some f xs = Some r \<Longrightarrow> \<exists>x \<in> set xs. f x = Some r"
  by (induction xs) (auto split: option.splits)

lemma counts_bounds:
  "n \<in> set (counts c lo hi greedy s) \<Longrightarrow> lo \<le> n \<and> n \<le> length (takeWhile (in_cls c) s)"
  by (auto simp: counts_def Let_def split: if_splits option.splits)

lemma match_items_rest:
  "match_items items s k = Some res \<Longrightarrow> \<exists>r. k r = Some res \<and> length r \<le> length s"
proof (induction items arbitrary: s)
  case Nil
  then show ?case by auto
next
  case (Cons i items)
  show ?case
  proof (cases i)
    case (One c)
    with Cons.prems obtain x xs where s: "s = x # xs" and m: "match_items items xs k = Some res"
      by (cases s) (auto split: if_splits)
    from Cons.IH [OF m] s show ?thesis by auto
  next
    case (Rep c lo hi greedy)
    with Cons.prems
    have "first_some (\<lambda>n. match_items items (drop n s) k) (counts c lo hi greedy s) = Some res"
      by simp
    then obtain n where "match_items items (drop n s) k = Some res"
      by (blast dest: first_some_Some)
    from Cons.IH [OF this] show ?thesis by auto
  next
    case Eol
    with Cons.prems have "match_items items s k = Some res"
      by (auto split: if_splits)
    from Cons.IH [OF this] show ?thesis .
  qed
qed

lemma match_items_rep_first:
  assumes "match_items (Rep c lo hi greedy # items) s k = Some res" and "1 \<le> lo"
  shows "\<exists>r. k r = Some res \<and> length r < length s \<and> s \<noteq> [] \<and> in_cls c (hd s)"
proof -
  from assms(1)
  have "first_some (\<lambda>n. match_items items (drop n s) k) (counts c lo hi greedy s) = Some res"
    by simp
  then obtain n where n: "n \<in> set (counts c lo hi greedy s)"
    and m: "match_items items (drop n s) k = Some res"
    by (blast dest: first_some_Some)
  from counts_bounds [OF n] assms(2)
  have n1: "1 \<le> n" and tw: "n \<le> length (takeWhile (in_cls c) s)" by auto
  from n1 tw have ne: "takeWhile (in_cls c) s \<noteq> []" by auto
  then have s: "s \<noteq> []" "in_cls c (hd s)"
    by (cases s; auto split: if_splits)+
  from tw have "n \<le> length s"
    using length_takeWhile_le [of "in_cls c" s] by linarith
  with n1 s have short: "length (drop n s) < length s" by (cases s) auto
  from match_items_rest [OF m] obtain r where "k r = Some res" "length r \<le> length (drop n s)"
    by blast
  with short s show ?thesis by auto
qed

lemma match_at_group:
  assumes "match_at p s = Some (g, r)" and "group1 p = Rep c lo hi greedy # items"
    and "1 \<le> lo"
  shows "g \<noteq> [] \<and> in_cls c (hd g)"
proof -
  let ?k3 = "\<lambda>r1 r2. (\<lambda>alt.
      match_items alt r2 (\<lambda>r3. Some (take (length r1 - length r2) r1, r3)))"
  let ?k2 = "\<lambda>r1. (\<lambda>r2. first_some (?k3 r1 r2) (after p))"
  from assms(1) have "match_items (before p) s
      (\<lambda>r1. match_items (group1 p) r1 (?k2 r1)) = Some (g, r)"
    by (simp add: match_at_def)
  from match_items_rest [OF this] obtain r1 where
    "match_items (group1 p) r1 (?k2 r1) = Some (g, r)" by blast
  then have "match_items (Rep c lo hi greedy # items) r1 (?k2 r1) = Some (g, r)"
    by (simp only: assms(2))
  from match_items_rep_first [OF this assms(3)] obtain r2 where
    k2: "?k2 r1 r2 = Some (g, r)" and len: "length r2 < length r1"
    and r1: "r1 \<noteq> []" "in_cls c (hd r1)"
    by blast
  from k2 obtain alt where "?k3 r1 r2 alt = Some (g, r)"
    by (blast dest: first_some_Some)
  from match_items_rest [OF this] have g: "g = take (length r1 - length r2) r1"
    by auto
  from len r1 show ?thesis
    unfolding g by (cases r1) (auto simp: take_Cons')
qed

lemma re_search_group:
  assumes "group1 p = Rep c lo hi greedy # items" and "1 \<le> lo"
  shows "re_search p s = Some g \<Longrightarrow> g \<noteq> [] \<and> in_cls c (hd g)"
proof (induction s)
  case Nil
  then obtain r where "match_at p [] = Some (g, r)" by auto
  from match_at_group [OF this assms] show ?case .
next
  case (Cons x xs)
  show ?case
  proof (cases "match_at p (x # xs)")
    case None
    with Cons show ?thesis by simp
  next
    case (Some gr)
    with Cons.prems obtain r where "match_at p (x # xs) = Some (g, r)"
      by (cases gr) auto
    from match_at_group [OF this assms] show ?thesis .
  qed
qed

subsection \<open>Extracted values are never empty\<close>

lemma operator_by_pattern_nonempty:
  "operator_by_pattern ps text = Some x \<Longrightarrow> x \<noteq> []"
  by (induction ps) (auto simp: Let_def u_def split: option.splits if_splits)

lemma known_operators_nonempty: "x \<in> set known_operators \<Longrightarrow> x \<noteq> []"
  by (auto simp: known_operators_def ru_beeline_def ru_mts_def ru_megafon_def ru_tele2_def
      ru_motiv_def u_def)

lemma extract_operator_nonempty: "extract_operator text = Some x \<Longrightarrow> x \<noteq> []"
proof -
  assume a: "extract_operator text = Some x"
  show ?thesis
  proof (cases "operator_by_pattern operator_patterns text")
    case (Some y)
    with a have "y = x" by (simp add: extract_operator_def)
    with Some show ?thesis by (simp add: operator_by_pattern_nonempty)
  next
    case None
    with a have "find (\<lambda>operator. sublist (py_lower operator) (py_lower text)) known_operators
        = Some x"
      by (simp add: extract_operator_def)
    then have "x \<in> set known_operators"
      by (auto simp: find_Some_iff)
    then show ?thesis by (rule known_operators_nonempty)
  qed
qed

lemma digit_not_space: "is_digit c \<Longrightarrow> \<not> is_space c"
  by (auto simp: is_digit_def is_space_def)

lemma first_match_date_time:
  assumes "\<forall>p \<in> set ps. group1 p = date_time_group"
  shows "first_match ps text = Some x \<Longrightarrow> x \<noteq> []"
  using assms
proof (induction ps)
  case Nil
  then show ?case by simp
next
  case (Cons p ps)
  show ?case
  proof (cases "re_search p text")
    case None
    with Cons show ?thesis by simp
  next
    case (Some g)
    with Cons.prems have x: "x = strip g" by simp
    from Cons.prems have "group1 p = Rep Digit 1 (Some 2) True # tl date_time_group"
      by (simp add: date_time_group_def)
    from re_search_group [OF this _ Some] have "g \<noteq> []" "is_digit (hd g)" by simp_all
    then show ?thesis
      unfolding x by (intro strip_nonempty digit_not_space)
  qed
qed

lemma extract_start_time_nonempty: "extract_start_time text = Some x \<Longrightarrow> x \<noteq> []"
  unfolding extract_start_time_def
  by (rule first_match_date_time [of start_time_patterns]) (simp_all add: start_time_patterns_def)

lemma extract_end_time_nonempty: "extract_end_time text = Some x \<Longrightarrow> x \<noteq> []"
  unfolding extract_end_time_def
  by (rule first_match_date_time [of end_time_patterns]) (simp_all add: end_time_patterns_def)

lemma truthy_extracted:
  "truthy (extract_operator text) = (extract_operator text \<noteq> None)"
  "truthy (extract_start_time text) = (extract_start_time text \<noteq> None)"
  "truthy (extract_end_time text) = (extract_end_time text \<noteq> None)"
  by (auto simp: truthy_def extract_operator_nonempty extract_start_time_nonempty
      extract_end_time_nonempty split: option.splits)

subsection \<open>The acceptance gate\<close>

text \<open>
  Claim C4. \<open>parse_email\<close> returns a record exactly when \<open>_extract_operator\<close>,
  \<open>_extract_start_time\<close> or \<open>_extract_end_time\<close> finds a value in the subject and
  body (a found value is never the empty text, so Python's truth test lets it pass).
  The record carries the five extracted fields as they were found: a description is
  always there, and a message with an operator only gets a record whose other
  extracted fields may be \<open>None\<close>.
\<close>

theorem acceptance_gate:
  assumes "full_text = subject email @ [10] @ body email"
  shows "(parse_email now email = None \<longleftrightarrow>
            extract_operator full_text = None \<and> extract_start_time full_text = None
            \<and> extract_end_time full_text = None)
       \<and> (\<forall>r. parse_email now email = Some r \<longrightarrow>
            operator_name r = extract_operator full_text
            \<and> start_time r = extract_start_time full_text
            \<and> end_time r = extract_end_time full_text
            \<and> work_type r = extract_work_type (Some (subject email)) full_text
            \<and> description r = extract_description (body email))"
  unfolding assms
  by (auto simp: parse_email_def Let_def truthy_extracted)

lemmas rx_eval =
  match_at_def nocase_def exact_def many1_def many0_def lazy1_def lazy0_def opt_def
  counts_def lower_cp_def is_space_def is_digit_def is_word_def py_lower_def u_def Let_def
  strip_def word_or_space_def sublist_Cons_right name_cls_def

lemmas ru_words =
  ru_operator_def ru_soobshchil_def ru_operatora_def ru_storone_operatora_def
  ru_platforme_def ru_platformy_def ru_raboty_na_storone_operatora_def
  ru_raboty_na_platforme_def ru_beeline_def ru_mts_def ru_megafon_def ru_tele2_def
  ru_motiv_def ru_nachalo_rabot_def ru_nachalo_def ru_s_def ru_okonchanie_rabot_def
  ru_okonchanie_def ru_po_def ru_raboty_def ru_rabot_def ru_obsluzhivanie_def
  ru_tekhnichesk_def ru_vneplanovye_def ru_planovye_def ru_avarijnye_def
  ru_profilakticheskie_def ru_tekhnicheskie_def ru_tekhnicheskikh_rabot_def

lemma description_only_fields:
  "extract_operator (subject description_only_mail @ [10] @ body description_only_mail) = None"
  "extract_start_time (subject description_only_mail @ [10] @ body description_only_mail) = None"
  "extract_end_time (subject description_only_mail @ [10] @ body description_only_mail) = None"
  by (simp_all add: extract_operator_def operator_patterns_def known_operators_def
      extract_start_time_def start_time_patterns_def extract_end_time_def
      end_time_patterns_def label_end_def date_time_group_def description_only_mail_def
      rx_eval ru_words)

lemma operator_only_fields:
  "extract_operator (subject operator_only_mail @ [10] @ body operator_only_mail)
     = Some ru_beeline"
  "extract_start_time (subject operator_only_mail @ [10] @ body operator_only_mail) = None"
  "extract_end_time (subject operator_only_mail @ [10] @ body operator_only_mail) = None"
  "extract_work_type (Some (subject operator_only_mail))
     (subject operator_only_mail @ [10] @ body operator_only_mail) = None"
  by (simp_all add: extract_operator_def operator_patterns_def known_operators_def
      extract_start_time_def start_time_patterns_def extract_end_time_def
      end_time_patterns_def label_end_def date_time_group_def operator_only_mail_def
      extract_work_type_def clean_subject_def reply_prefix_def work_indicators_def
      work_type_of_text_def specific_patterns_def works_phrase_def
      rx_eval ru_words)

theorem acceptance_gate_witness:
  "parse_email 0 description_only_mail = None
   \<and> map_option operator_name (parse_email 0 operator_only_mail) = Some (Some ru_beeline)
   \<and> map_option start_time (parse_email 0 operator_only_mail) = Some None
   \<and> map_option end_time (parse_email 0 operator_only_mail) = Some None
   \<and> map_option work_type (parse_email 0 operator_only_mail) = Some None"
proof -
  note d = acceptance_gate [OF refl, of 0 description_only_mail]
  from d description_only_fields have a: "parse_email 0 description_only_mail = None"
    by blast
  note o = acceptance_gate [OF refl, of 0 operator_only_mail]
  from o operator_only_fields(1) obtain r where r: "parse_email 0 operator_only_mail = Some r"
    by (cases "parse_email 0 operator_only_mail") auto
  with o operator_only_fields
  have "operator_name r = Some ru_beeline" "start_time r = None" "end_time r = None"
    "work_type r = None"
    by auto
  with a r show ?thesis by simp
qed

subsection \<open>The work type\<close>

lemma work_indicators_lower: "i \<in> set work_indicators \<Longrightarrow> py_lower i = i \<and> i \<noteq> []"
  by (auto simp: work_indicators_def ru_raboty_def ru_rabot_def ru_obsluzhivanie_def
      ru_tekhnichesk_def py_lower_def lower_cp_def)

lemma clean_subject_Nil: "clean_subject [] = []"
  by (simp add: clean_subject_def reply_prefix_def many0_def counts_def strip_def)

text \<open>
  Claim C7. When the cleaned subject (\<open>strip\<close>, one leading \<open>Re:\<close> removed, \<open>strip\<close>)
  contains one of the work indicators, as it stands or after lower-casing,
  \<open>_extract_work_type\<close> returns the cleaned subject itself whatever the text holds, and
  so the record of \<open>parse_email\<close> has it as its work type.
\<close>

theorem subject_preferred:
  assumes "indicator \<in> set work_indicators"
    and "sublist indicator (clean_subject s) \<or> sublist indicator (py_lower (clean_subject s))"
  shows "extract_work_type (Some s) text = Some (clean_subject s)
       \<and> (\<forall>now email r. subject email = s \<and> parse_email now email = Some r \<longrightarrow>
            work_type r = Some (clean_subject s))"
proof -
  from work_indicators_lower [OF assms(1)]
  have low: "py_lower indicator = indicator" and ne: "indicator \<noteq> []" by simp_all
  from assms(2) sublist_py_lower [of indicator "clean_subject s"] low
  have sub: "sublist indicator (py_lower (clean_subject s))" by auto
  have "s \<noteq> []"
  proof
    assume "s = []"
    with sub have "sublist indicator []" by (simp add: clean_subject_Nil py_lower_def)
    with ne show False by simp
  qed
  moreover from sub assms(1)
  have "list_ex (\<lambda>i. sublist i (py_lower (clean_subject s))) work_indicators"
    by (auto simp: list_ex_iff)
  ultimately have direct: "extract_work_type (Some s) any = Some (clean_subject s)" for any
    by (simp add: extract_work_type_def)
  have "\<forall>now email r. subject email = s \<and> parse_email now email = Some r \<longrightarrow>
      work_type r = Some (clean_subject s)"
    by (auto simp: parse_email_def Let_def direct split: if_splits)
  with direct show ?thesis by blast
qed

lemma reply_subject_clean: "clean_subject reply_subject = reply_subject_cleaned"
  by (simp add: clean_subject_def reply_prefix_def reply_subject_def reply_subject_cleaned_def
      rx_eval)

theorem subject_preferred_witness:
  "extract_work_type (Some (subject reply_mail)) (subject reply_mail @ [10] @ body reply_mail)
     = Some reply_subject_cleaned
   \<and> extract_work_type (Some reply_subject) emergency_text = Some reply_subject_cleaned
   \<and> extract_work_type None emergency_text = Some (butlast emergency_text)"
proof -
  have h1: "ru_raboty \<in> set work_indicators" by (simp add: work_indicators_def)
  have h2: "sublist ru_raboty (clean_subject reply_subject)
      \<or> sublist ru_raboty (py_lower (clean_subject reply_subject))"
    unfolding reply_subject_clean
    by (simp add: reply_subject_cleaned_def ru_raboty_def sublist_Cons_right)
  have s: "subject reply_mail = reply_subject" by (simp add: reply_mail_def)
  have e: "extract_work_type None emergency_text = Some (butlast emergency_text)"
    by (simp add: extract_work_type_def work_type_of_text_def specific_patterns_def
        works_phrase_def emergency_text_def rx_eval ru_words)
  from subject_preferred [OF h1 h2] have
    "extract_work_type (Some reply_subject) any = Some (clean_subject reply_subject)" for any
    by blast
  with s e show ?thesis by (simp add: reply_subject_clean)
qed


end
